theory Spec2Isabelle
  imports Complex_Main
begin

section \<open>Python exceptions\<close>

text \<open>
  Every exception the modelled code can raise is a value; a function that can raise returns
  \<open>py_error + 'a\<close>, with \<open>Inl\<close> for the raised exception.
\<close>

datatype py_error =
    NameError string
  | NotImplementedError string
  | AssertionError string
  | TypeError string
  | ValueError string
  | AttributeError string
  | ZeroDivisionError string
  | IndexError string

section \<open>Benchmark drivers: the result table and its file\<close>

text \<open>
  \<^verbatim>\<open>NCP_benchmarks.py\<close> and \<^verbatim>\<open>KMN_benchmarks.py\<close> keep a pandas table
  \<^verbatim>\<open>results_df\<close> with the columns \<^verbatim>\<open>seed\<close>, \<^verbatim>\<open>n_samples\<close>, (for the NCP driver)
  \<^verbatim>\<open>postprocess\<close>, and one column per metric. The metric columns are kept abstract
  (\<open>'m\<close>); the \<^verbatim>\<open>postprocess\<close> column is absent (\<open>None\<close>) in the KMN table.
  The file system is a map from path to the pickled table stored there.
\<close>

record 'm result_row =
  seed :: nat
  n_samples :: nat
  postprocess :: "string option"
  scores :: 'm

type_synonym 'm table = "'m result_row list"

type_synonym 'm files = "string \<rightharpoonup> 'm table"

text \<open>
  The state of a sweep: the table in memory, the files on disk, and the list of
  \<open>(n, seed)\<close> pairs for which the body of the loop ran (a model was fitted and scored).
\<close>

record 'm sweep =
  results_df :: "'m table"
  disk :: "'m files"
  fitted :: "(nat \<times> nat) list"

definition n_training_samples :: "nat list" where
  "n_training_samples = [100, 200, 500, 1000, 2000, 5000, 10000, 20000, 50000, 100000]"

text \<open>
  \<^verbatim>\<open>if os.path.isfile(filename): results_df = pd.read_pickle(filename)
else: results_df = pd.DataFrame()\<close>
\<close>

definition load_results :: "'m files \<Rightarrow> string \<Rightarrow> 'm table" where
  "load_results fs filename = (case fs filename of Some t \<Rightarrow> t | None \<Rightarrow> [])"

text \<open>
  \<^verbatim>\<open>results_df[(results_df['n_samples'] == n) & (results_df['seed'] == seed)]\<close>
\<close>

definition rows_of :: "'m table \<Rightarrow> nat \<Rightarrow> nat \<Rightarrow> 'm table" where
  "rows_of df n s = filter (\<lambda>r. n_samples r = n \<and> seed r = s) df"

text \<open>
  The guard of the \<^verbatim>\<open>continue\<close>:
  \<^verbatim>\<open>if len(results_df) > 0:
    if len(results_df[...]) > 0: continue\<close>
\<close>

definition already_recorded :: "'m table \<Rightarrow> nat \<Rightarrow> nat \<Rightarrow> bool" where
  "already_recorded df n s \<longleftrightarrow> (if length df > 0 then length (rows_of df n s) > 0 else False)"

subsection \<open>The NCP driver\<close>

text \<open>
  One pass of the seed loop of \<^verbatim>\<open>NCP_benchmarks.run_experiment\<close>. The fit and the
  scoring are the parameter \<open>score n seed postprocess\<close>; the three rows of a pair are
  appended to the table, which is then written to \<^verbatim>\<open>filename\<close>.
\<close>

definition ncp_results :: "(nat \<Rightarrow> nat \<Rightarrow> string \<Rightarrow> 'm) \<Rightarrow> nat \<Rightarrow> nat \<Rightarrow> 'm table" where
  "ncp_results score n s =
     map (\<lambda>pp. \<lparr>seed = s, n_samples = n, postprocess = Some pp, scores = score n s pp\<rparr>)
       [''None'', ''centering'', ''whitening'']"

definition ncp_iteration ::
  "(nat \<Rightarrow> nat \<Rightarrow> string \<Rightarrow> 'm) \<Rightarrow> string \<Rightarrow> nat \<times> nat \<Rightarrow> 'm sweep \<Rightarrow> 'm sweep" where
  "ncp_iteration score filename p st =
     (case p of (n, s) \<Rightarrow>
        if already_recorded (results_df st) n s then st
        else let df = results_df st @ ncp_results score n s
             in \<lparr>results_df = df, disk = (disk st)(filename \<mapsto> df), fitted = fitted st @ [(n, s)]\<rparr>)"

definition ncp_filename :: "string \<Rightarrow> string" where
  "ncp_filename cls = cls @ ''_NCP_results.pkl''"

text \<open>
  The pairs in the order of the nested loops
  \<^verbatim>\<open>for n in n_training_samples: ... for seed in range(5):\<close>.
\<close>

definition ncp_pairs :: "(nat \<times> nat) list" where
  "ncp_pairs = List.product n_training_samples [0..<5]"

text \<open>
  \<^verbatim>\<open>run_experiment\<close> of the NCP driver, for a simulator whose class name is \<open>cls\<close>,
  started on the files \<open>fs\<close>. \<open>ncp_run_interrupted k\<close> is a run that is killed after \<open>k\<close>
  passes of the seed loop.
\<close>

definition ncp_start :: "string \<Rightarrow> 'm files \<Rightarrow> 'm sweep" where
  "ncp_start cls fs = \<lparr>results_df = load_results fs (ncp_filename cls), disk = fs, fitted = []\<rparr>"

definition ncp_run_interrupted ::
  "nat \<Rightarrow> (nat \<Rightarrow> nat \<Rightarrow> string \<Rightarrow> 'm) \<Rightarrow> string \<Rightarrow> 'm files \<Rightarrow> 'm sweep" where
  "ncp_run_interrupted k score cls fs =
     fold (ncp_iteration score (ncp_filename cls)) (take k ncp_pairs) (ncp_start cls fs)"

definition ncp_run_experiment ::
  "(nat \<Rightarrow> nat \<Rightarrow> string \<Rightarrow> 'm) \<Rightarrow> string \<Rightarrow> 'm files \<Rightarrow> 'm sweep" where
  "ncp_run_experiment score cls fs =
     fold (ncp_iteration score (ncp_filename cls)) ncp_pairs (ncp_start cls fs)"

subsection \<open>The kernel-mixture-network driver\<close>

text \<open>
  \<^verbatim>\<open>KMN_benchmarks.run_experiment\<close>: ten seeds (\<^verbatim>\<open>np.arange(10)\<close>), one row per pair,
  the table read from \<^verbatim>\<open>filename\<close> at start-up and written with
  \<^verbatim>\<open>results_df.to_pickle('results/' + filename)\<close>.
\<close>

definition kmn_result :: "(nat \<Rightarrow> nat \<Rightarrow> 'm) \<Rightarrow> nat \<Rightarrow> nat \<Rightarrow> 'm table" where
  "kmn_result score n s = [\<lparr>seed = s, n_samples = n, postprocess = None, scores = score n s\<rparr>]"

definition kmn_iteration ::
  "(nat \<Rightarrow> nat \<Rightarrow> 'm) \<Rightarrow> string \<Rightarrow> nat \<times> nat \<Rightarrow> 'm sweep \<Rightarrow> 'm sweep" where
  "kmn_iteration score filename p st =
     (case p of (n, s) \<Rightarrow>
        if already_recorded (results_df st) n s then st
        else let df = results_df st @ kmn_result score n s
             in \<lparr>results_df = df, disk = (disk st)(''results/'' @ filename \<mapsto> df),
                 fitted = fitted st @ [(n, s)]\<rparr>)"

definition kmn_filename :: "string \<Rightarrow> string" where
  "kmn_filename cls = cls @ ''_KMN_results.pkl''"

definition kmn_pairs :: "(nat \<times> nat) list" where
  "kmn_pairs = List.product n_training_samples [0..<10]"

definition kmn_start :: "string \<Rightarrow> 'm files \<Rightarrow> 'm sweep" where
  "kmn_start cls fs = \<lparr>results_df = load_results fs (kmn_filename cls), disk = fs, fitted = []\<rparr>"

definition kmn_run_interrupted ::
  "nat \<Rightarrow> (nat \<Rightarrow> nat \<Rightarrow> 'm) \<Rightarrow> string \<Rightarrow> 'm files \<Rightarrow> 'm sweep" where
  "kmn_run_interrupted k score cls fs =
     fold (kmn_iteration score (kmn_filename cls)) (take k kmn_pairs) (kmn_start cls fs)"

definition kmn_run_experiment ::
  "(nat \<Rightarrow> nat \<Rightarrow> 'm) \<Rightarrow> string \<Rightarrow> 'm files \<Rightarrow> 'm sweep" where
  "kmn_run_experiment score cls fs =
     fold (kmn_iteration score (kmn_filename cls)) kmn_pairs (kmn_start cls fs)"

text \<open>The file holds the table in memory, or neither holds anything yet.\<close>

definition in_sync :: "string \<Rightarrow> 'm sweep \<Rightarrow> bool" where
  "in_sync filename st \<longleftrightarrow>
     disk st filename = Some (results_df st) \<or> (disk st filename = None \<and> results_df st = [])"

section \<open>Arrays\<close>

text \<open>
  A one-dimensional array is a list, a two-dimensional array the list of its rows. The
  operations are written by index, as the array libraries define them, and compute.
  Arithmetic is exact (real or complex numbers): rounding is not modelled. An array with no
  rows is the empty list and records no width (\<open>ncols [] = 0\<close>).
\<close>

type_synonym 'a vec = "'a list"

type_synonym 'a mat = "'a list list"

definition nrows :: "'a mat \<Rightarrow> nat" where
  "nrows A = length A"

definition ncols :: "'a mat \<Rightarrow> nat" where
  "ncols A = (case A of [] \<Rightarrow> 0 | r # _ \<Rightarrow> length r)"

definition is_mat :: "nat \<Rightarrow> nat \<Rightarrow> 'a mat \<Rightarrow> bool" where
  "is_mat r c A \<longleftrightarrow> length A = r \<and> list_all (\<lambda>row. length row = c) A"

definition mk_vec :: "nat \<Rightarrow> (nat \<Rightarrow> 'a) \<Rightarrow> 'a vec" where
  "mk_vec n f = map f [0..<n]"

definition mk_mat :: "nat \<Rightarrow> nat \<Rightarrow> (nat \<Rightarrow> nat \<Rightarrow> 'a) \<Rightarrow> 'a mat" where
  "mk_mat r c f = map (\<lambda>i. map (\<lambda>j. f i j) [0..<c]) [0..<r]"

definition sum_upto :: "nat \<Rightarrow> (nat \<Rightarrow> 'a::comm_monoid_add) \<Rightarrow> 'a" where
  "sum_upto n f = sum_list (map f [0..<n])"

definition transpose_mat :: "'a mat \<Rightarrow> 'a mat" where
  "transpose_mat A = mk_mat (ncols A) (nrows A) (\<lambda>i j. A ! j ! i)"

definition matmul :: "'a::comm_semiring_0 mat \<Rightarrow> 'a mat \<Rightarrow> 'a mat" where
  "matmul A B = mk_mat (nrows A) (ncols B) (\<lambda>i j. sum_upto (ncols A) (\<lambda>k. A ! i ! k * B ! k ! j))"

definition matvec :: "'a::comm_semiring_0 mat \<Rightarrow> 'a vec \<Rightarrow> 'a vec" where
  "matvec A v = mk_vec (nrows A) (\<lambda>i. sum_upto (ncols A) (\<lambda>k. A ! i ! k * v ! k))"

definition eye :: "nat \<Rightarrow> 'a::zero_neq_one mat" where
  "eye n = mk_mat n n (\<lambda>i j. if i = j then 1 else 0)"

definition diag :: "'a::zero vec \<Rightarrow> 'a mat" where
  "diag d = mk_mat (length d) (length d) (\<lambda>i j. if i = j then d ! i else 0)"

definition trace :: "'a::comm_monoid_add mat \<Rightarrow> 'a" where
  "trace A = sum_upto (nrows A) (\<lambda>i. A ! i ! i)"

definition scale_mat :: "'a::times \<Rightarrow> 'a mat \<Rightarrow> 'a mat" where
  "scale_mat c A = map (map (\<lambda>x. c * x)) A"

definition add_mat :: "'a::plus mat \<Rightarrow> 'a mat \<Rightarrow> 'a mat" where
  "add_mat A B = map2 (map2 (\<lambda>x y. x + y)) A B"

definition sub_mat :: "'a::minus mat \<Rightarrow> 'a mat \<Rightarrow> 'a mat" where
  "sub_mat A B = map2 (map2 (\<lambda>x y. x - y)) A B"

definition col :: "'a mat \<Rightarrow> nat \<Rightarrow> 'a vec" where
  "col A j = map (\<lambda>row. row ! j) A"

text \<open>\<^verbatim>\<open>reshape\<close> of a flat array, row-major.\<close>

definition reshape2 :: "nat \<Rightarrow> nat \<Rightarrow> 'a list \<Rightarrow> 'a mat" where
  "reshape2 r c xs = mk_mat r c (\<lambda>i j. xs ! (i * c + j))"

definition reshape3 :: "nat \<Rightarrow> nat \<Rightarrow> nat \<Rightarrow> 'a list \<Rightarrow> 'a mat list" where
  "reshape3 k r c xs = map (\<lambda>q. mk_mat r c (\<lambda>i j. xs ! (q * (r * c) + i * c + j))) [0..<k]"

text \<open>The block-diagonal matrix of an \<open>r\<close>-by-\<open>r\<close> and a second square block.\<close>

definition block_diag :: "'a::zero mat \<Rightarrow> 'a mat \<Rightarrow> 'a mat" where
  "block_diag A B =
     (let r = nrows A; n = nrows A + nrows B
      in mk_mat n n (\<lambda>i j. if i < r \<and> j < r then A ! i ! j
                           else if r \<le> i \<and> r \<le> j then B ! (i - r) ! (j - r) else 0))"

section \<open>The symmetric Gaussian-mixture simulator\<close>

text \<open>
  \<^verbatim>\<open>symmGMM.py\<close>. The group and its representations come from the library \<^verbatim>\<open>escnn\<close>;
  the model keeps what the constructor reads of them: \<^verbatim>\<open>G.continuous\<close>, \<^verbatim>\<open>G.order()\<close>,
  \<^verbatim>\<open>G.elements\<close>, \<^verbatim>\<open>G.identity\<close>, the inverse \<^verbatim>\<open>~g\<close>, and of a representation its group,
  its \<^verbatim>\<open>size\<close> and the matrix \<^verbatim>\<open>rep(g)\<close>.
\<close>

record 'g group =
  continuous :: bool
  group_order :: nat
  elements :: "'g list"
  identity :: 'g
  inverse_of :: "'g \<Rightarrow> 'g"

record 'g representation =
  rep_group :: "'g group"
  rep_size :: nat
  rep_matrix :: "'g \<Rightarrow> real mat"

text \<open>\<^verbatim>\<open>directsum([rep_X, rep_Y])\<close>: the group of the first, the sizes added, the blocks stacked.\<close>

definition directsum :: "'g representation \<Rightarrow> 'g representation \<Rightarrow> 'g representation" where
  "directsum rep_X rep_Y =
     \<lparr>rep_group = rep_group rep_X, rep_size = rep_size rep_X + rep_size rep_Y,
      rep_matrix = (\<lambda>g. block_diag (rep_matrix rep_X g) (rep_matrix rep_Y g))\<rparr>"

text \<open>
  What the constructor takes from outside the file.
  \<^item> \<^verbatim>\<open>np.random.RandomState\<close>: \<open>seed_state s\<close> is the generator state for the seed \<open>s\<close>;
    \<open>random_sample\<close> and \<open>normal\<close> draw the given number of values and return the new state.
  \<^item> \<^verbatim>\<open>project_to_pos_semi_def\<close> (\<^verbatim>\<open>NCP.cde_fork.utils.misc\<close>) and the data statistics
    (\<^verbatim>\<open>self.simulate\<close> of the base class and \<^verbatim>\<open>symmetric_moments\<close>) are not in the sources
    modelled here: they are parameters.
  \<^item> \<open>module_G\<close> is the binding of the module-level name \<^verbatim>\<open>G\<close>. The only assignment to it is
    in the block under \<^verbatim>\<open>if __name__ == "__main__":\<close>, so it is bound when the file runs as a
    script and unbound (\<open>None\<close>) when the module is imported.
\<close>

record ('g, 'r) gmm_context =
  module_G :: "'g group option"
  seed_state :: "nat \<Rightarrow> 'r"
  random_sample :: "'r \<Rightarrow> nat \<Rightarrow> real list \<times> 'r"
  normal :: "'r \<Rightarrow> real \<Rightarrow> real \<Rightarrow> nat \<Rightarrow> real list \<times> 'r"
  project_to_pos_semi_def :: "real mat list \<Rightarrow> real mat list"
  data_statistics :: "real list \<Rightarrow> real mat \<Rightarrow> real mat list \<Rightarrow> 'r \<Rightarrow> real list \<times> real list"

text \<open>
  \<^verbatim>\<open>np.random.RandomState(seed=random_seed)\<close>: with \<^verbatim>\<open>seed=None\<close> the state is seeded from
  the operating system; \<open>entropy\<close> is what it supplies then.
\<close>

definition RandomState :: "('g, 'r, 'z) gmm_context_scheme \<Rightarrow> nat option \<Rightarrow> nat \<Rightarrow> 'r" where
  "RandomState ctx rseed entropy = seed_state ctx (case rseed of Some s \<Rightarrow> s | None \<Rightarrow> entropy)"

record ('g, 'r) symm_gaussian_mixture =
  random_state :: 'r
  random_state_params :: 'r
  random_seed :: "nat option"
  G :: "'g group"
  n_kernels :: nat
  ndim :: nat
  ndim_x :: nat
  ndim_y :: nat
  means_std :: real
  weights :: "real list"
  means :: "real mat"
  covariances_x :: "real mat list"
  covariances_y :: "real mat list"
  covariances :: "real mat list"
  means_x :: "real mat"
  means_y :: "real mat"
  gaussians :: "(real list \<times> real mat) list"
  gaussians_x :: "(real list \<times> real mat) list"
  gaussians_y :: "(real list \<times> real mat) list"
  y_mean :: "real list"
  y_std :: "real list"

text \<open>
  \<^verbatim>\<open>weights = self.random_state_params.random(n_weights)
return weights / np.sum(weights)\<close>

  The division is exact division of reals; where the sum is zero numpy returns \<^verbatim>\<open>nan\<close>
  entries, which real numbers do not have, so the properties below are stated for a
  non-zero sum.
\<close>

definition sample_weights ::
  "('g, 'r, 'z) gmm_context_scheme \<Rightarrow> 'r \<Rightarrow> nat \<Rightarrow> real list \<times> 'r" where
  "sample_weights ctx rs n_weights =
     (case random_sample ctx rs n_weights of
        (ws, rs') \<Rightarrow> (map (\<lambda>w. w / sum_list ws) ws, rs'))"

text \<open>
  \<^verbatim>\<open>SymmGaussianMixture.__init__\<close>. The statements run in the order of the source; the first
  statement of the finite-group branch, \<^verbatim>\<open>self.n_kernels = n_kernels * G.order()\<close>, reads the
  name \<^verbatim>\<open>G\<close>, which is not a local of the constructor: it is looked up in the module, and
  the lookup of an unbound name raises \<^verbatim>\<open>NameError\<close>. The group that name is bound to
  (\<open>G'\<close>) gives the order and the elements of the symmetrization; \<^verbatim>\<open>self.G\<close> is the group of
  \<open>rep_X\<close>. The frozen distributions (\<^verbatim>\<open>stats.multivariate_normal\<close>) are kept as the pair of
  their mean and covariance, and the arrays are taken to have the shapes the assignments need
  (the listing \<^verbatim>\<open>G.elements\<close> has \<^verbatim>\<open>G.order()\<close> entries in \<^verbatim>\<open>escnn\<close>).
\<close>

definition SymmGaussianMixture_init ::
  "('g, 'r) gmm_context \<Rightarrow> nat \<Rightarrow> 'g representation \<Rightarrow> 'g representation \<Rightarrow> real \<Rightarrow>
     nat option \<Rightarrow> nat \<Rightarrow> py_error + ('g, 'r) symm_gaussian_mixture" where
  "SymmGaussianMixture_init ctx n rep_X rep_Y std rseed entropy =
     (let rs_data = RandomState ctx rseed entropy;
          rsp0 = RandomState ctx (Some 20) entropy;
          grp = rep_group rep_X;
          d = rep_size rep_X + rep_size rep_Y;
          rep = directsum rep_X rep_Y;
          dx = rep_size rep_X;
          dy = rep_size rep_Y
      in case sample_weights ctx rsp0 n of (w0, rsp1) \<Rightarrow>
         case normal ctx rsp1 0 std (n * d) of (ms, rsp2) \<Rightarrow>
         case normal ctx rsp2 1 (1/2) (n * dx * dx) of (cxs, rsp3) \<Rightarrow>
         case normal ctx rsp3 1 (1/2) (n * dy * dy) of (cys, rsp4) \<Rightarrow>
         let means0 = reshape2 n d ms;
             cov_x0 = project_to_pos_semi_def ctx (map (map (map abs)) (reshape3 n dx dx cxs));
             cov_y0 = project_to_pos_semi_def ctx (map (map (map abs)) (reshape3 n dy dy cys))
         in if \<not> continuous grp then
              (case module_G ctx of
                 None \<Rightarrow> Inl (NameError ''G'')
               | Some G' \<Rightarrow>
                   let n_kernels' = n * group_order G';
                       others = filter (\<lambda>g. g \<noteq> identity G') (elements G');
                       means' = concat (means0 #
                          map (\<lambda>g. map (\<lambda>m. matvec (rep_matrix rep g) m) means0) others);
                       cov_x' = concat (cov_x0 #
                          map (\<lambda>g. map (\<lambda>C. matmul (matmul (rep_matrix rep_X g) C)
                                                (rep_matrix rep_X (inverse_of G' g))) cov_x0) others);
                       cov_y' = concat (cov_y0 #
                          map (\<lambda>g. map (\<lambda>C. matmul (matmul (rep_matrix rep_Y g) C)
                                                (rep_matrix rep_Y (inverse_of G' g))) cov_y0) others);
                       w1 = concat (replicate (group_order G') w0);
                       w2 = map (\<lambda>w. w / sum_list w1) w1;
                       cov' = map2 block_diag cov_x' cov_y';
                       mx = map (take dx) means';
                       my = map (drop dx) means';
                       stats = data_statistics ctx w2 means' cov' rs_data
                   in Inr \<lparr>random_state = rs_data, random_state_params = rsp4, random_seed = rseed,
                           G = grp, n_kernels = n_kernels', ndim = d, ndim_x = dx, ndim_y = dy,
                           means_std = std, weights = w2, means = means',
                           covariances_x = cov_x', covariances_y = cov_y', covariances = cov',
                           means_x = mx, means_y = my,
                           gaussians = zip means' cov', gaussians_x = zip mx cov_x',
                           gaussians_y = zip my cov_y',
                           y_mean = fst stats, y_std = snd stats\<rparr>)
            else Inl (NotImplementedError ''Only finite groups are supported at the moment''))"

text \<open>The mixture parameters of an instance: weights, means and the two covariance blocks.\<close>

definition mixture_parameters ::
  "('g, 'r) symm_gaussian_mixture \<Rightarrow> real list \<times> real mat \<times> real mat list \<times> real mat list" where
  "mixture_parameters m = (weights m, means m, covariances_x m, covariances_y m)"

text \<open>
  A small concrete setting: the group of two elements acting on a one-dimensional \<open>X\<close> by
  sign and trivially on a one-dimensional \<open>Y\<close>; a generator whose state counts the draws.
\<close>

definition C2_group :: "bool group" where
  "C2_group = \<lparr>continuous = False, group_order = 2, elements = [False, True],
                identity = False, inverse_of = (\<lambda>g. g)\<rparr>"

definition sign_rep :: "bool representation" where
  "sign_rep = \<lparr>rep_group = C2_group, rep_size = 1,
                rep_matrix = (\<lambda>g. [[if g then - 1 else 1]])\<rparr>"

definition trivial_rep :: "bool representation" where
  "trivial_rep = \<lparr>rep_group = C2_group, rep_size = 1, rep_matrix = (\<lambda>g. [[1]])\<rparr>"

definition counting_context :: "bool group option \<Rightarrow> (bool, nat) gmm_context" where
  "counting_context g =
     \<lparr>module_G = g, seed_state = (\<lambda>s. s),
      random_sample = (\<lambda>r k. (replicate k (1/2), r + k)),
      normal = (\<lambda>r loc scale k. (replicate k loc, r + k)),
      project_to_pos_semi_def = (\<lambda>cs. cs),
      data_statistics = (\<lambda>w m c r. ([], []))\<rparr>"

section \<open>The iterative-whitening layer\<close>

text \<open>
  \<^verbatim>\<open>IterativeWhitening\<close> of \<^verbatim>\<open>nn/layers.py\<close>. The values a call hands around are tensors
  (two-dimensional here), tuples and exception objects; an attribute such as \<^verbatim>\<open>X.dim\<close> is a
  bound method, a value of its own kind.
\<close>

datatype py_object =
    Tensor "real mat"
  | Tuple "py_object list"
  | ExceptionObject py_error
  | PyInt int
  | BoundMethod string

text \<open>
  \<^verbatim>\<open>==\<close> between an integer and a bound method: neither type knows the other, so Python falls
  back to identity and the comparison is \<^verbatim>\<open>False\<close>. (Tensors are never compared here.)
\<close>

fun py_eq :: "py_object \<Rightarrow> py_object \<Rightarrow> bool" where
  "py_eq (PyInt a) (PyInt b) = (a = b)"
| "py_eq (BoundMethod a) (BoundMethod b) = (a = b)"
| "py_eq (ExceptionObject a) (ExceptionObject b) = (a = b)"
| "py_eq _ _ = False"

record iterative_whitening =
  input_size :: nat
  newton_iterations :: nat
  eps :: real
  momentum :: real
  running_mean :: "real mat"
  running_whitening_mat :: "real mat"

text \<open>
  \<^verbatim>\<open>torch.nn.Module.register_buffer\<close> on a module whose \<^verbatim>\<open>Module.__init__\<close> has not run: the
  dictionary \<^verbatim>\<open>_buffers\<close> does not exist yet and torch raises \<^verbatim>\<open>AttributeError\<close>.
  \<open>module_initialised\<close> says whether \<^verbatim>\<open>Module.__init__\<close> has run.
\<close>

definition register_buffer :: "bool \<Rightarrow> string \<Rightarrow> real mat \<Rightarrow> py_error + real mat" where
  "register_buffer module_initialised name tensor =
     (if \<not> module_initialised
      then Inl (AttributeError ''cannot assign buffer before Module.__init__() call'')
      else Inr tensor)"

text \<open>
  \<^verbatim>\<open>IterativeWhitening.__init__\<close>: four attribute assignments and two \<^verbatim>\<open>register_buffer\<close>
  calls. There is no call of \<^verbatim>\<open>super().__init__()\<close>, so the module is not initialised when
  the first buffer is registered.
\<close>

definition IterativeWhitening_init ::
  "nat \<Rightarrow> nat \<Rightarrow> real \<Rightarrow> real \<Rightarrow> py_error + iterative_whitening" where
  "IterativeWhitening_init isize iterations e m =
     (case register_buffer False ''running_mean'' (mk_mat 1 isize (\<lambda>i j. 0)) of
        Inl err \<Rightarrow> Inl err
      | Inr rm \<Rightarrow>
          (case register_buffer False ''running_whitening_mat'' (mk_mat isize isize (\<lambda>i j. 0)) of
             Inl err \<Rightarrow> Inl err
           | Inr rw \<Rightarrow>
               Inr \<lparr>input_size = isize, newton_iterations = iterations, eps = e, momentum = m,
                     running_mean = rm, running_whitening_mat = rw\<rparr>))"

text \<open>\<^verbatim>\<open>X.mean(0, keepdim=True)\<close>: the row of column means.\<close>

definition mean0 :: "real mat \<Rightarrow> real mat" where
  "mean0 X = [mk_vec (ncols X) (\<lambda>j. sum_upto (nrows X) (\<lambda>k. X ! k ! j) / real (nrows X))]"

text \<open>\<^verbatim>\<open>torch.cov(X.T, correction=0)\<close>: the covariance of the columns of \<open>X\<close>, divided by the
  number of rows.\<close>

definition cov_biased :: "real mat \<Rightarrow> real mat" where
  "cov_biased X =
     (let mu = mean0 X ! 0
      in mk_mat (ncols X) (ncols X)
           (\<lambda>i j. sum_upto (nrows X) (\<lambda>k. (X ! k ! i - mu ! i) * (X ! k ! j - mu ! j))
                   / real (nrows X)))"

text \<open>The loop \<^verbatim>\<open>for k in range(self.newton_iterations): P = 0.5*(3*P - matrix_power(P, 3)@norm_covX)\<close>.\<close>

fun newton :: "nat \<Rightarrow> real mat \<Rightarrow> real mat \<Rightarrow> real mat" where
  "newton 0 norm_covX P = P"
| "newton (Suc k) norm_covX P =
     newton k norm_covX
       (scale_mat (1/2) (sub_mat (scale_mat 3 P) (matmul (matmul (matmul P P) P) norm_covX)))"

text \<open>
  \<^verbatim>\<open>_compute_whitening_matrix\<close>. \<open>debug\<close> is Python's \<^verbatim>\<open>__debug__\<close>: assertions run unless the
  interpreter was started with \<^verbatim>\<open>-O\<close>. The asserted condition is \<^verbatim>\<open>X.dim == 2\<close>, the bound
  method \<^verbatim>\<open>X.dim\<close> compared with 2 (not the call \<^verbatim>\<open>X.dim()\<close>). On a width mismatch the
  source executes \<^verbatim>\<open>return ValueError(...)\<close>: the exception object is the value returned.
  (The message of the source also holds the two widths.)
\<close>

definition compute_whitening_matrix :: "bool \<Rightarrow> iterative_whitening \<Rightarrow> real mat \<Rightarrow> py_error + py_object" where
  "compute_whitening_matrix debug layer X =
     (if debug \<and> \<not> py_eq (BoundMethod ''dim'') (PyInt 2)
      then Inl (AssertionError ''Only supporting 2D Tensors'')
      else if ncols X \<noteq> input_size layer
      then Inr (ExceptionObject (ValueError
             ''The feature dimension of the input tensor does not match the input_size attribute''))
      else
        let covX = add_mat (cov_biased X) (scale_mat (eps layer) (eye (input_size layer)));
            norm_covX = scale_mat (1 / trace covX) covX;
            P = newton (newton_iterations layer) norm_covX (eye (input_size layer));
            whitening_mat = scale_mat (1 / trace covX) P;
            X_mean = mean0 X
        in Inr (Tuple [Tensor X_mean, Tensor whitening_mat]))"

text \<open>\<^verbatim>\<open>_update_running_stats(self, mean, whitening_mat)\<close>: the body, and the call with a list
  of positional arguments, which needs exactly two.\<close>

definition update_running_stats ::
  "iterative_whitening \<Rightarrow> real mat \<Rightarrow> real mat \<Rightarrow> iterative_whitening" where
  "update_running_stats layer mean whitening_mat =
     layer\<lparr>running_mean :=
              add_mat (scale_mat (momentum layer) mean)
                (scale_mat (1 - momentum layer) (running_mean layer)),
           running_whitening_mat :=
              add_mat (scale_mat (momentum layer) whitening_mat)
                (scale_mat (1 - momentum layer) (running_whitening_mat layer))\<rparr>"

fun call_update_running_stats ::
  "iterative_whitening \<Rightarrow> py_object list \<Rightarrow> py_error + iterative_whitening" where
  "call_update_running_stats layer [Tensor mean, Tensor whitening_mat] =
     Inr (update_running_stats layer mean whitening_mat)"
| "call_update_running_stats layer [a, b] =
     Inl (TypeError ''unsupported operand type(s) for *'')"
| "call_update_running_stats layer [a] =
     Inl (TypeError ''_update_running_stats() missing 1 required positional argument: whitening_mat'')"
| "call_update_running_stats layer args =
     Inl (TypeError ''_update_running_stats() takes 3 positional arguments'')"

text \<open>
  \<^verbatim>\<open>forward\<close>: \<^verbatim>\<open>self._update_running_stats(self._compute_whitening_matrix(X))\<close> passes the
  one value \<^verbatim>\<open>_compute_whitening_matrix\<close> returns as the only argument; then
  \<^verbatim>\<open>return (X - self.running_mean)@self.running_whitening_mat\<close>, the row \<^verbatim>\<open>running_mean\<close>
  subtracted from every row of \<open>X\<close>. The result is the updated layer and the output.
\<close>

definition forward ::
  "bool \<Rightarrow> iterative_whitening \<Rightarrow> real mat \<Rightarrow> py_error + (iterative_whitening \<times> real mat)" where
  "forward debug layer X =
     (case compute_whitening_matrix debug layer X of
        Inl err \<Rightarrow> Inl err
      | Inr r \<Rightarrow>
          (case call_update_running_stats layer [r] of
             Inl err \<Rightarrow> Inl err
           | Inr layer' \<Rightarrow>
               Inr (layer',
                    matmul (map (\<lambda>row. map2 (\<lambda>x m. x - m) row (running_mean layer' ! 0)) X)
                      (running_whitening_mat layer'))))"

section \<open>The NCP operator model\<close>

text \<open>
  \<^verbatim>\<open>model.py\<close>. What torch provides is a parameter: the eigen-decomposition
  \<^verbatim>\<open>torch.linalg.eigh\<close> (eigenvalues, real, and the matrix whose columns are eigenvectors),
  the conjugate transpose \<^verbatim>\<open>.mH\<close> of the element type, the pseudo-inverse
  \<^verbatim>\<open>torch.linalg.pinv\<close> and the machine epsilon \<^verbatim>\<open>torch.finfo(dtype).eps\<close>.
\<close>

record 'a linalg =
  eigh :: "'a mat \<Rightarrow> real list \<times> 'a mat"
  mH :: "'a mat \<Rightarrow> 'a mat"
  pinv :: "'a mat \<Rightarrow> 'a mat"
  finfo_eps :: real

text \<open>\<^verbatim>\<open>L.max(-1).values\<close>; torch raises on an empty \<open>L\<close>, which no matrix of size at least one
  gives.\<close>

fun list_max :: "real list \<Rightarrow> real" where
  "list_max [] = 0"
| "list_max [x] = x"
| "list_max (x # xs) = max x (list_max xs)"

text \<open>
  \<^verbatim>\<open>L, Q = torch.linalg.eigh(A)
threshold = L.max(-1).values * L.size(-1) * torch.finfo(L.dtype).eps
L = L.where(L > threshold.unsqueeze(-1), zero)
return (Q * L.sqrt().unsqueeze(-2)) @ Q.mH\<close>

  \<open>Q * L.sqrt().unsqueeze(-2)\<close> multiplies column \<open>j\<close> of \<open>Q\<close> by the root of the \<open>j\<close>-th
  value. (\<open>sqrt\<close> of a negative real is not \<^verbatim>\<open>nan\<close> in HOL; the properties below are stated
  where no negative value is kept.)
\<close>

definition clamp_small :: "real \<Rightarrow> real list \<Rightarrow> real list" where
  "clamp_small threshold L = map (\<lambda>l. if l > threshold then l else 0) L"

definition sqrtmh :: "('a::real_field) linalg \<Rightarrow> 'a mat \<Rightarrow> 'a mat" where
  "sqrtmh la A =
     (case eigh la A of (L, Q) \<Rightarrow>
        let threshold = list_max L * real (length L) * finfo_eps la;
            L' = clamp_small threshold L
        in matmul (map (\<lambda>row. map2 (\<lambda>q l. q * of_real (sqrt l)) row L') Q) (mH la Q))"

text \<open>
  The fitted model: the two encoders in evaluation mode, the weights of the singular layer,
  and the training arrays \<^verbatim>\<open>save_after_training\<close> retains.
\<close>

record deep_svd =
  U_operator :: "real mat \<Rightarrow> real mat"
  V_operator :: "real mat \<Rightarrow> real mat"
  S_weights :: "real list"
  training_X :: "real mat"
  training_Y :: "real mat"

text \<open>\<^verbatim>\<open>torch.sqrt(torch.exp(-self.models['S'].weights ** 2))\<close>\<close>

definition singular_values :: "deep_svd \<Rightarrow> real list" where
  "singular_values m = map (\<lambda>w. sqrt (exp (- (w ^ 2)))) (S_weights m)"

text \<open>\<^verbatim>\<open>postprocess_UV_tmp\<close>: the encoder outputs and the singular values as they are.\<close>

definition postprocess_UV_tmp :: "deep_svd \<Rightarrow> real mat \<Rightarrow> real mat \<times> real list \<times> real mat" where
  "postprocess_UV_tmp m X_test =
     (U_operator m X_test, singular_values m, V_operator m (training_Y m))"

text \<open>
  \<^verbatim>\<open>_filter_reduced_rank_svals\<close> for real values: a value is invalid when its magnitude is at
  most twice the machine epsilon; if any is invalid, the invalid values and their columns
  are dropped.
\<close>

definition filter_reduced_rank_svals ::
  "real linalg \<Rightarrow> real list \<Rightarrow> real mat \<Rightarrow> real list \<times> real mat" where
  "filter_reduced_rank_svals la vals vectors =
     (let eps2 = 2 * finfo_eps la;
          is_invalid = map (\<lambda>v. \<bar>v\<bar> \<le> eps2) vals;
          keep = filter (\<lambda>j. \<not> is_invalid ! j) [0..<length vals]
      in if list_ex (\<lambda>b. b) is_invalid
         then (map (\<lambda>j. vals ! j) keep, map (\<lambda>row. map (\<lambda>j. row ! j) keep) vectors)
         else (vals, vectors))"

text \<open>\<^verbatim>\<open>Ux - torch.outer(torch.mean(Ux, axis=-1), torch.ones(Ux.shape[-1]))\<close>: every row minus its
  own mean.\<close>

definition center_rows :: "real mat \<Rightarrow> real mat" where
  "center_rows A = map (\<lambda>row. map (\<lambda>x. x - sum_list row / real (length row)) row) A"

text \<open>
  \<^verbatim>\<open>postprocess_UV\<close>. \<^verbatim>\<open>n ** -1\<close> on the Python integer \<^verbatim>\<open>n = 0\<close> raises
  \<^verbatim>\<open>ZeroDivisionError\<close>. The query is optional (\<^verbatim>\<open>if X_test is not None\<close>). With an exact
  eigen-decomposition the values of \<open>M M\<^sup>T\<close> are not negative; \<open>sqrt\<close> of a negative value would
  be \<^verbatim>\<open>nan\<close> in torch and is not in HOL.
\<close>

definition postprocess_UV ::
  "real linalg \<Rightarrow> deep_svd \<Rightarrow> real mat option \<Rightarrow> py_error + (real mat \<times> real list \<times> real mat)" where
  "postprocess_UV la m X_test =
     (let n = nrows (training_X m);
          sigma = singular_values m;
          Ux0 = U_operator m (training_X m);
          Vy0 = V_operator m (training_Y m);
          Ux1 = (if ncols Ux0 > 1 then center_rows Ux0 else Ux0);
          Vy1 = (if ncols Ux0 > 1 then center_rows Vy0 else Vy0);
          Ux2 = matmul Ux1 (diag sigma);
          Vy2 = matmul Vy1 (diag sigma)
      in if n = 0 then Inl (ZeroDivisionError ''0.0 cannot be raised to a negative power'')
         else
           let cov_X = scale_mat (1 / real n) (matmul (transpose_mat Ux2) Ux2);
               cov_Y = scale_mat (1 / real n) (matmul (transpose_mat Vy2) Vy2);
               cov_XY = scale_mat (1 / real n) (matmul (transpose_mat Ux2) Vy2);
               sqrt_cov_X_inv = pinv la (sqrtmh la cov_X);
               sqrt_cov_Y_inv = pinv la (sqrtmh la cov_Y);
               M = matmul (matmul sqrt_cov_X_inv cov_XY) sqrt_cov_Y_inv
           in case eigh la (matmul M (transpose_mat M)) of (e_val0, sing_vec_l0) \<Rightarrow>
              case filter_reduced_rank_svals la e_val0 sing_vec_l0 of (e_val, sing_vec_l) \<Rightarrow>
                let sing_val = map sqrt e_val;
                    sing_vec_r = map (\<lambda>row. map2 (\<lambda>x s. x / s) row sing_val)
                                   (matmul (transpose_mat M) sing_vec_l);
                    Ux3 = (case X_test of None \<Rightarrow> Ux2 | Some X \<Rightarrow> U_operator m X);
                    Ux = matmul (matmul Ux3 sqrt_cov_X_inv) sing_vec_l;
                    Vy = matmul (matmul Vy2 sqrt_cov_Y_inv) sing_vec_r
                in Inr (Ux, sing_val, Vy))"

text \<open>
  numpy does not raise on a division by zero or on the mean of an empty array: a
  floating-point value is a finite number, an infinity or \<^verbatim>\<open>nan\<close>. The arithmetic of the
  finite values is exact; the special values follow IEEE 754.
\<close>

datatype npfloat = Finite real | PosInf | NegInf | NaN

fun np_add :: "npfloat \<Rightarrow> npfloat \<Rightarrow> npfloat" where
  "np_add (Finite a) (Finite b) = Finite (a + b)"
| "np_add NaN y = NaN"
| "np_add x NaN = NaN"
| "np_add PosInf NegInf = NaN"
| "np_add NegInf PosInf = NaN"
| "np_add PosInf y = PosInf"
| "np_add NegInf y = NegInf"
| "np_add x PosInf = PosInf"
| "np_add x NegInf = NegInf"

fun np_mul :: "npfloat \<Rightarrow> npfloat \<Rightarrow> npfloat" where
  "np_mul (Finite a) (Finite b) = Finite (a * b)"
| "np_mul NaN y = NaN"
| "np_mul x NaN = NaN"
| "np_mul (Finite a) PosInf = (if a = 0 then NaN else if 0 < a then PosInf else NegInf)"
| "np_mul (Finite a) NegInf = (if a = 0 then NaN else if 0 < a then NegInf else PosInf)"
| "np_mul PosInf (Finite b) = (if b = 0 then NaN else if 0 < b then PosInf else NegInf)"
| "np_mul NegInf (Finite b) = (if b = 0 then NaN else if 0 < b then NegInf else PosInf)"
| "np_mul PosInf PosInf = PosInf"
| "np_mul NegInf NegInf = PosInf"
| "np_mul PosInf NegInf = NegInf"
| "np_mul NegInf PosInf = NegInf"

text \<open>\<^verbatim>\<open>x ** -1\<close> on a numpy float: the reciprocal, infinite at zero (a mean of booleans is
  never the negative zero).\<close>

fun np_reciprocal :: "npfloat \<Rightarrow> npfloat" where
  "np_reciprocal (Finite a) = (if a = 0 then PosInf else Finite (1 / a))"
| "np_reciprocal PosInf = Finite 0"
| "np_reciprocal NegInf = Finite 0"
| "np_reciprocal NaN = NaN"

definition np_sum :: "npfloat list \<Rightarrow> npfloat" where
  "np_sum xs = foldr np_add xs (Finite 0)"

text \<open>\<^verbatim>\<open>np.mean\<close> of the entries of an array: \<^verbatim>\<open>nan\<close> when there is none.\<close>

definition np_mean :: "real list \<Rightarrow> npfloat" where
  "np_mean xs = (if xs = [] then NaN else Finite (sum_list xs / real (length xs)))"

text \<open>
  The product \<^verbatim>\<open>a * b\<close> of two one-dimensional arrays, with numpy's broadcasting: equal
  lengths multiply entry by entry, an array of one entry is stretched to the other's length,
  and any other pair of lengths raises \<^verbatim>\<open>ValueError\<close>.
\<close>

definition broadcast_mul :: "npfloat list \<Rightarrow> npfloat list \<Rightarrow> py_error + npfloat list" where
  "broadcast_mul a b =
     (if length a = length b then Inr (map2 np_mul a b)
      else if length a = 1 then Inr (map (\<lambda>y. np_mul (a ! 0) y) b)
      else if length b = 1 then Inr (map (\<lambda>x. np_mul x (b ! 0)) a)
      else Inl (ValueError ''operands could not be broadcast together''))"

text \<open>The first exception of a list of results, or the list of their values.\<close>

fun collect :: "('e + 'a) list \<Rightarrow> 'e + 'a list" where
  "collect [] = Inr []"
| "collect (Inl e # rs) = Inl e"
| "collect (Inr x # rs) = (case collect rs of Inl e \<Rightarrow> Inl e | Inr xs \<Rightarrow> Inr (x # xs))"

text \<open>
  The numpy operations of \<^verbatim>\<open>predict\<close>.
  \<^item> \<^verbatim>\<open>np.outer\<close> flattens its arguments.
  \<^item> \<^verbatim>\<open>Vy * fY\<close>: both arrays have the width of \<open>Vy\<close>; the numbers of rows are broadcast as
    above (equal, or one of them 1), and \<^verbatim>\<open>ValueError\<close> is raised otherwise.
  \<^item> \<^verbatim>\<open>np.mean(..., axis=0)\<close> of an array of width \<open>d\<close>: the mean of every column.
  \<^item> \<^verbatim>\<open>sing_val * Ux * Vy_fY\<close>: every row of \<open>Ux\<close> times the two one-dimensional arrays,
    from left to right, each product broadcast.
\<close>

definition outer :: "real list \<Rightarrow> real list \<Rightarrow> real mat" where
  "outer a b = mk_mat (length a) (length b) (\<lambda>i j. a ! i * b ! j)"

definition mul_rows :: "real mat \<Rightarrow> real mat \<Rightarrow> py_error + real mat" where
  "mul_rows A B =
     (if length A = length B then Inr (map2 (map2 (\<lambda>x y. x * y)) A B)
      else if length A = 1 then Inr (map (\<lambda>b. map2 (\<lambda>x y. x * y) (A ! 0) b) B)
      else if length B = 1 then Inr (map (\<lambda>a. map2 (\<lambda>x y. x * y) a (B ! 0)) A)
      else Inl (ValueError ''operands could not be broadcast together''))"

definition mean_axis0 :: "nat \<Rightarrow> real mat \<Rightarrow> npfloat list" where
  "mean_axis0 d A = mk_vec d (\<lambda>i. np_mean (map (\<lambda>row. row ! i) A))"

definition times_vector :: "npfloat mat \<Rightarrow> npfloat list \<Rightarrow> py_error + npfloat mat" where
  "times_vector A v = collect (map (\<lambda>row. broadcast_mul row v) A)"

definition vector_times :: "npfloat list \<Rightarrow> npfloat mat \<Rightarrow> py_error + npfloat mat" where
  "vector_times v A = collect (map (\<lambda>row. broadcast_mul v row) A)"

text \<open>
  \<^verbatim>\<open>predict\<close>. The observable maps the training \<open>Y\<close> to an array, which \<^verbatim>\<open>np.squeeze\<close> and
  \<^verbatim>\<open>np.outer\<close> flatten to the vector \<open>fy\<close>; \<open>fY\<close> repeats it in \<^verbatim>\<open>Vy.shape[-1]\<close> columns.
  \<^verbatim>\<open>bias = np.mean(fY)\<close> is the mean of all entries of \<open>fY\<close>; \<^verbatim>\<open>np.sum(..., axis=-1)\<close> sums
  each row; the result has one entry per row of \<open>Ux\<close>.
\<close>

definition predict ::
  "real linalg \<Rightarrow> deep_svd \<Rightarrow> real mat \<Rightarrow> (real mat \<Rightarrow> real mat) \<Rightarrow> bool \<Rightarrow> py_error + npfloat list" where
  "predict la m X_test observable postprocessing =
     (case (if postprocessing then postprocess_UV la m (Some X_test)
            else Inr (postprocess_UV_tmp m X_test)) of
        Inl err \<Rightarrow> Inl err
      | Inr (Ux, sing_val, Vy) \<Rightarrow>
          let fY = outer (concat (observable (training_Y m))) (replicate (ncols Vy) 1);
              bias = np_mean (concat fY)
          in case mul_rows Vy fY of
               Inl err \<Rightarrow> Inl err
             | Inr Vy_times_fY \<Rightarrow>
                 let Vy_fY = mean_axis0 (ncols Vy) Vy_times_fY
                 in case vector_times (map Finite sing_val) (map (map Finite) Ux) of
                      Inl err \<Rightarrow> Inl err
                    | Inr sigma_U \<Rightarrow>
                        (case times_vector sigma_U Vy_fY of
                           Inl err \<Rightarrow> Inl err
                         | Inr sigma_U_fY_VY \<Rightarrow>
                             let val = map np_sum sigma_U_fY_VY
                             in Inr (map (\<lambda>v. np_add bias v) val)))"

text \<open>
  A concrete setting of width one: the eigen-decomposition, adjoint and pseudo-inverse of
  one-by-one real matrices with the machine epsilon of single precision, and a model whose
  encoders are the identity, fitted on two samples.
\<close>

definition scalar_linalg :: "real linalg" where
  "scalar_linalg = \<lparr>eigh = (\<lambda>A. ([A ! 0 ! 0], [[1]])), mH = transpose_mat,
          pinv = (\<lambda>A. [[inverse (A ! 0 ! 0)]]), finfo_eps = 1 / 8388608\<rparr>"

definition toy_model :: deep_svd where
  "toy_model = \<lparr>U_operator = (\<lambda>X. X), V_operator = (\<lambda>Y. Y), S_weights = [0],
         training_X = [[1], [-1]], training_Y = [[2], [-2]]\<rparr>"

text \<open>
  \<^verbatim>\<open>indicator_fn(x, interval)\<close>:
  \<^verbatim>\<open>((interval[0] <= x) & (x <= interval[1])).squeeze()\<close>. The comparison gives a boolean
  array of the shape of \<open>x\<close>, and \<^verbatim>\<open>squeeze\<close> drops every axis of length one: an array of one
  column (or of one row) becomes one-dimensional, any other stays two-dimensional. (A single
  entry becomes zero-dimensional; the vector of one entry stands for it here, which on an
  array of one row selects and averages to the same values, numpy returning them in an array
  of one entry.)
\<close>

datatype mask = Mask1 "bool list" | Mask2 "bool list list"

definition squeeze :: "bool list list \<Rightarrow> mask" where
  "squeeze M =
     (if length M = 1 then Mask1 (M ! 0)
      else if list_all (\<lambda>row. length row = 1) M then Mask1 (map (\<lambda>row. row ! 0) M)
      else Mask2 M)"

definition indicator_fn :: "real mat \<Rightarrow> real \<times> real \<Rightarrow> mask" where
  "indicator_fn x interval =
     squeeze (map (map (\<lambda>v. fst interval \<le> v \<and> v \<le> snd interval)) x)"

text \<open>The entries of a mask, and \<^verbatim>\<open>.mean()\<close> of a mask: the share of true entries, \<^verbatim>\<open>nan\<close>
  when there is no entry.\<close>

fun mask_values :: "mask \<Rightarrow> bool list" where
  "mask_values (Mask1 v) = v"
| "mask_values (Mask2 M) = concat M"

definition mask_mean :: "mask \<Rightarrow> npfloat" where
  "mask_mean k = np_mean (map (\<lambda>b. if b then 1 else 0) (mask_values k))"

text \<open>
  \<^verbatim>\<open>Ux[x_A, :]\<close> on the two-dimensional \<open>Ux\<close>: a one-dimensional mask selects rows and must
  have as many entries as \<open>Ux\<close> has rows; a two-dimensional mask together with the slice
  indexes three axes, and numpy raises \<^verbatim>\<open>IndexError\<close> in both failing cases.
\<close>

fun select_rows :: "mask \<Rightarrow> 'a list \<Rightarrow> py_error + 'a list" where
  "select_rows (Mask1 v) A =
     (if length v = length A then Inr (map snd (filter fst (zip v A)))
      else Inl (IndexError ''boolean index did not match indexed array along axis 0''))"
| "select_rows (Mask2 M) A = Inl (IndexError ''too many indices for array'')"

text \<open>
  \<^verbatim>\<open>Ux[x_A, :].sum(axis=0) * n ** -1\<close>: the selected rows summed by column, times the float
  \<open>1 / n\<close>. The left operand is evaluated first; then \<^verbatim>\<open>n ** -1\<close> on the Python integer
  \<^verbatim>\<open>n = 0\<close> raises \<^verbatim>\<open>ZeroDivisionError\<close>.
\<close>

definition masked_mean :: "mask \<Rightarrow> real mat \<Rightarrow> nat \<Rightarrow> py_error + npfloat list" where
  "masked_mean sel A n =
     (case select_rows sel A of
        Inl err \<Rightarrow> Inl err
      | Inr selected \<Rightarrow>
          if n = 0 then Inl (ZeroDivisionError ''0.0 cannot be raised to a negative power'')
          else Inr (mk_vec (ncols A)
                 (\<lambda>i. Finite (sum_list (map (\<lambda>row. row ! i) selected) * (1 / real n)))))"

text \<open>
  \<^verbatim>\<open>conditional_probability\<close> and \<^verbatim>\<open>joint_probability\<close>. The products are taken from left to
  right, each one broadcast.
\<close>

definition selected_postprocess ::
  "real linalg \<Rightarrow> deep_svd \<Rightarrow> bool \<Rightarrow> py_error + (real mat \<times> real list \<times> real mat)" where
  "selected_postprocess la m postprocessing =
     (if postprocessing then postprocess_UV la m (Some (training_X m))
      else Inr (postprocess_UV_tmp m (training_X m)))"

definition conditional_probability ::
  "real linalg \<Rightarrow> deep_svd \<Rightarrow> real \<times> real \<Rightarrow> real \<times> real \<Rightarrow> bool \<Rightarrow> py_error + npfloat" where
  "conditional_probability la m interval_A interval_B postprocessing =
     (case selected_postprocess la m postprocessing of
        Inl err \<Rightarrow> Inl err
      | Inr (Ux, sing_val, Vy) \<Rightarrow>
          let n = nrows (training_Y m);
              x_A = indicator_fn (training_X m) interval_A;
              y_B = indicator_fn (training_Y m) interval_B
          in case masked_mean x_A Ux n of
               Inl err \<Rightarrow> Inl err
             | Inr Ux_A \<Rightarrow>
                 (case masked_mean y_B Vy n of
                    Inl err \<Rightarrow> Inl err
                  | Inr Vy_B \<Rightarrow>
                      (case broadcast_mul (map Finite sing_val) Ux_A of
                         Inl err \<Rightarrow> Inl err
                       | Inr t1 \<Rightarrow>
                           (case broadcast_mul
                                   (map (\<lambda>t. np_mul t (np_reciprocal (mask_mean x_A))) t1) Vy_B of
                              Inl err \<Rightarrow> Inl err
                            | Inr t2 \<Rightarrow> Inr (np_add (mask_mean y_B) (np_sum t2))))))"

definition joint_probability ::
  "real linalg \<Rightarrow> deep_svd \<Rightarrow> real \<times> real \<Rightarrow> real \<times> real \<Rightarrow> bool \<Rightarrow> py_error + npfloat" where
  "joint_probability la m interval_A interval_B postprocessing =
     (case selected_postprocess la m postprocessing of
        Inl err \<Rightarrow> Inl err
      | Inr (Ux, sing_val, Vy) \<Rightarrow>
          let n = nrows (training_Y m);
              x_A = indicator_fn (training_X m) interval_A;
              y_B = indicator_fn (training_Y m) interval_B
          in case masked_mean x_A Ux n of
               Inl err \<Rightarrow> Inl err
             | Inr Ux_A \<Rightarrow>
                 (case masked_mean y_B Vy n of
                    Inl err \<Rightarrow> Inl err
                  | Inr Vy_B \<Rightarrow>
                      (case broadcast_mul (map Finite sing_val) Ux_A of
                         Inl err \<Rightarrow> Inl err
                       | Inr t1 \<Rightarrow>
                           (case broadcast_mul
                                   (map (\<lambda>t. np_mul t (np_reciprocal (mask_mean x_A))) t1) Vy_B of
                              Inl err \<Rightarrow> Inl err
                            | Inr t2 \<Rightarrow>
                                Inr (np_add (Finite 1)
                                      (np_sum (map (\<lambda>t. np_mul t (np_reciprocal (mask_mean y_B)))
                                                 t2)))))))"

text \<open>
  A model whose encoders have collapsed to zero, a model fitted on no data, and two models
  whose training \<open>X\<close>, respectively \<open>Y\<close>, has two columns.
\<close>

definition collapsed_model :: deep_svd where
  "collapsed_model = \<lparr>U_operator = map (\<lambda>row. [0]), V_operator = map (\<lambda>row. [0]),
      S_weights = [0], training_X = [[1], [2]], training_Y = [[1], [2]]\<rparr>"

definition empty_model :: deep_svd where
  "empty_model = \<lparr>U_operator = (\<lambda>X. X), V_operator = (\<lambda>Y. Y), S_weights = [0],
      training_X = [], training_Y = []\<rparr>"

definition two_column_X_model :: deep_svd where
  "two_column_X_model = \<lparr>U_operator = map (\<lambda>row. [row ! 0]), V_operator = (\<lambda>Y. Y),
      S_weights = [0], training_X = [[7, 1], [8, 2]], training_Y = [[2], [-2]]\<rparr>"

definition two_column_Y_model :: deep_svd where
  "two_column_Y_model = \<lparr>U_operator = (\<lambda>X. X), V_operator = map (\<lambda>row. [row ! 0]),
      S_weights = [0], training_X = [[1], [-1]], training_Y = [[2, 1], [-2, 1]]\<rparr>"

text \<open>
  Two concrete eigen-decompositions: of real diagonal two-by-two matrices (eigenvectors the
  unit vectors), and of complex one-by-one matrices with the eigenvector \<open>\<i>\<close>, where the
  adjoint conjugates.
\<close>

definition diagonal_linalg :: "real linalg" where
  "diagonal_linalg = \<lparr>eigh = (\<lambda>A. ([A ! 0 ! 0, A ! 1 ! 1], [[1, 0], [0, 1]])),
      mH = transpose_mat, pinv = map (map inverse), finfo_eps = 1 / 8388608\<rparr>"

definition phase_linalg :: "complex linalg" where
  "phase_linalg = \<lparr>eigh = (\<lambda>A. ([Re (A ! 0 ! 0)], [[\<i>]])),
      mH = (\<lambda>Q. map (map cnj) (transpose_mat Q)), pinv = map (map inverse),
      finfo_eps = 1 / 8388608\<rparr>"

section \<open>Properties of the drivers\<close>

lemma already_recorded_iff: "already_recorded df n s \<longleftrightarrow> rows_of df n s \<noteq> []"
  by (auto simp: already_recorded_def rows_of_def)

lemma rows_of_append: "rows_of (df @ new) n s = rows_of df n s @ rows_of new n s"
  by (simp add: rows_of_def)

lemma rows_of_ncp_results:
  "rows_of (ncp_results score n' s') n s = (if n' = n \<and> s' = s then ncp_results score n s else [])"
  by (simp add: rows_of_def ncp_results_def)

lemma ncp_results_nonempty: "ncp_results score n s \<noteq> []"
  by (simp add: ncp_results_def)

lemma ncp_iteration_in_sync:
  "in_sync f st \<Longrightarrow> in_sync f (ncp_iteration score f p st)"
  by (cases p) (simp add: ncp_iteration_def in_sync_def Let_def)

lemma ncp_fold_in_sync:
  "in_sync f st \<Longrightarrow> in_sync f (fold (ncp_iteration score f) ps st)"
  by (induction ps arbitrary: st) (simp_all add: ncp_iteration_in_sync)

lemma ncp_iteration_keeps_recorded:
  "already_recorded (results_df st) n s \<Longrightarrow>
   already_recorded (results_df (ncp_iteration score f p st)) n s"
  by (cases p) (simp add: ncp_iteration_def Let_def already_recorded_iff rows_of_append)

lemma ncp_fold_keeps_recorded:
  "already_recorded (results_df st) n s \<Longrightarrow>
   already_recorded (results_df (fold (ncp_iteration score f) ps st)) n s"
  by (induction ps arbitrary: st) (simp_all add: ncp_iteration_keeps_recorded)

lemma ncp_iteration_records:
  "already_recorded (results_df (ncp_iteration score f (n, s) st)) n s"
  by (simp add: ncp_iteration_def Let_def already_recorded_iff rows_of_append
      rows_of_ncp_results ncp_results_nonempty)

lemma ncp_fold_records:
  "(n, s) \<in> set ps \<Longrightarrow> already_recorded (results_df (fold (ncp_iteration score f) ps st)) n s"
proof (induction ps arbitrary: st)
  case Nil
  then show ?case by simp
next
  case (Cons p ps)
  show ?case
  proof (cases "p = (n, s)")
    case True
    then show ?thesis
      using ncp_fold_keeps_recorded [OF ncp_iteration_records] by simp
  next
    case False
    with Cons show ?thesis by simp
  qed
qed

lemma ncp_fold_all_recorded:
  "\<forall>p \<in> set ps. already_recorded (results_df st) (fst p) (snd p) \<Longrightarrow>
   fold (ncp_iteration score f) ps st = st"
  by (induction ps) (auto simp: ncp_iteration_def)

lemma ncp_iteration_rows_kept:
  "already_recorded (results_df st) n s \<Longrightarrow>
   rows_of (results_df (ncp_iteration score f p st)) n s = rows_of (results_df st) n s
   \<and> (n, s) \<notin> set (drop (length (fitted st)) (fitted (ncp_iteration score f p st)))"
  by (cases p) (auto simp: ncp_iteration_def Let_def rows_of_append rows_of_ncp_results)

lemma ncp_iteration_fitted_grows:
  "\<exists>new. fitted (ncp_iteration score f p st) = fitted st @ new"
  by (cases p) (simp add: ncp_iteration_def Let_def)

lemma ncp_fold_rows_kept:
  "already_recorded (results_df st) n s \<Longrightarrow>
   rows_of (results_df (fold (ncp_iteration score f) ps st)) n s = rows_of (results_df st) n s
   \<and> (\<exists>new. fitted (fold (ncp_iteration score f) ps st) = fitted st @ new \<and> (n, s) \<notin> set new)"
proof (induction ps arbitrary: st)
  case Nil
  then show ?case by simp
next
  case (Cons p ps)
  let ?st = "ncp_iteration score f p st"
  have rec: "already_recorded (results_df ?st) n s"
    using Cons.prems by (rule ncp_iteration_keeps_recorded)
  from ncp_iteration_rows_kept [OF Cons.prems, of score f p]
  have r1: "rows_of (results_df ?st) n s = rows_of (results_df st) n s"
    and f1: "(n, s) \<notin> set (drop (length (fitted st)) (fitted ?st))" by simp_all
  obtain new1 where n1: "fitted ?st = fitted st @ new1"
    using ncp_iteration_fitted_grows by blast
  with f1 have nin1: "(n, s) \<notin> set new1" by simp
  from Cons.IH [OF rec] obtain new2 where
    r2: "rows_of (results_df (fold (ncp_iteration score f) ps ?st)) n s = rows_of (results_df ?st) n s"
    and n2: "fitted (fold (ncp_iteration score f) ps ?st) = fitted ?st @ new2"
    and nin2: "(n, s) \<notin> set new2" by blast
  have "fitted (fold (ncp_iteration score f) (p # ps) st) = fitted st @ (new1 @ new2)"
    using n1 n2 by simp
  moreover have "(n, s) \<notin> set (new1 @ new2)" using nin1 nin2 by simp
  ultimately show ?case using r1 r2 by auto
qed


lemma ncp_start_in_sync: "in_sync (ncp_filename cls) (ncp_start cls fs)"
  by (simp add: in_sync_def ncp_start_def load_results_def split: option.splits)

lemma load_in_sync: "in_sync f st \<Longrightarrow> load_results (disk st) f = results_df st"
  by (auto simp: in_sync_def load_results_def)

lemma ncp_run_interrupted_in_sync:
  "in_sync (ncp_filename cls) (ncp_run_interrupted k score cls fs)"
  unfolding ncp_run_interrupted_def by (rule ncp_fold_in_sync [OF ncp_start_in_sync])

lemma ncp_run_experiment_interrupted:
  "length ncp_pairs \<le> k \<Longrightarrow> ncp_run_interrupted k score cls fs = ncp_run_experiment score cls fs"
  by (simp add: ncp_run_interrupted_def ncp_run_experiment_def)

text \<open>
  C5. The NCP driver run a second time on the files a first run left (the first run complete
  or killed after \<open>k\<close> passes of the seed loop): the second run loads exactly the table the
  first run persisted; every \<open>(n_samples, seed)\<close> pair present in it is skipped (no fit) and
  keeps exactly the rows it had, so no row is appended for it; and after a complete first run
  the second run fits nothing and leaves table and files as they were.
\<close>

theorem ncp_rerun_no_duplicates:
  assumes "run1 = ncp_run_interrupted k score1 cls fs"
    and "run2 = ncp_run_experiment score2 cls (disk run1)"
  shows "load_results (disk run1) (ncp_filename cls) = results_df run1
    \<and> (\<forall>n s. already_recorded (results_df run1) n s \<longrightarrow>
          (n, s) \<notin> set (fitted run2)
          \<and> rows_of (results_df run2) n s = rows_of (results_df run1) n s)
    \<and> (length ncp_pairs \<le> k \<longrightarrow>
          fitted run2 = [] \<and> results_df run2 = results_df run1 \<and> disk run2 = disk run1)"
proof -
  let ?f = "ncp_filename cls"
  have sync: "in_sync ?f run1"
    unfolding assms(1) by (rule ncp_run_interrupted_in_sync)
  have load: "load_results (disk run1) ?f = results_df run1"
    using sync by (rule load_in_sync)
  have start: "ncp_start cls (disk run1) = \<lparr>results_df = results_df run1, disk = disk run1, fitted = []\<rparr>"
    by (simp add: ncp_start_def load)
  have run2: "run2 = fold (ncp_iteration score2 ?f) ncp_pairs (ncp_start cls (disk run1))"
    by (simp add: assms(2) ncp_run_experiment_def)
  have skip: "(n, s) \<notin> set (fitted run2)
      \<and> rows_of (results_df run2) n s = rows_of (results_df run1) n s"
    if rec: "already_recorded (results_df run1) n s" for n s
  proof -
    have "already_recorded (results_df (ncp_start cls (disk run1))) n s"
      using rec by (simp add: start)
    from ncp_fold_rows_kept [OF this, of score2 ?f ncp_pairs]
    show ?thesis by (auto simp: run2 start)
  qed
  have full: "fitted run2 = [] \<and> results_df run2 = results_df run1 \<and> disk run2 = disk run1"
    if k: "length ncp_pairs \<le> k"
  proof -
    have r1: "run1 = fold (ncp_iteration score1 ?f) ncp_pairs (ncp_start cls fs)"
      using k by (simp add: assms(1) ncp_run_interrupted_def)
    have "\<forall>p \<in> set ncp_pairs. already_recorded (results_df (ncp_start cls (disk run1))) (fst p) (snd p)"
      unfolding start using ncp_fold_records [of _ _ ncp_pairs score1 ?f "ncp_start cls fs"]
      by (auto simp: r1)
    then have "run2 = ncp_start cls (disk run1)"
      unfolding run2 by (rule ncp_fold_all_recorded)
    then show ?thesis by (simp add: start)
  qed
  show ?thesis using load skip full by blast
qed

theorem ncp_rerun_no_duplicates_witness:
  "already_recorded
     (results_df (ncp_run_interrupted 1 (\<lambda>n s pp. ()) ''EconDensity'' Map.empty)) 100 0
   \<and> (100, 0) \<notin> set (fitted (ncp_run_experiment (\<lambda>n s pp. ()) ''EconDensity''
        (disk (ncp_run_interrupted 1 (\<lambda>n s pp. ()) ''EconDensity'' Map.empty))))
   \<and> length ncp_pairs \<le> 50
   \<and> fitted (ncp_run_experiment (\<lambda>n s pp. ()) ''EconDensity''
        (disk (ncp_run_interrupted 50 (\<lambda>n s pp. ()) ''EconDensity'' Map.empty))) = []"
proof -
  have rec: "already_recorded
     (results_df (ncp_run_interrupted 1 (\<lambda>n s pp. ()) ''EconDensity'' Map.empty)) 100 0"
    by (simp add: ncp_run_interrupted_def ncp_pairs_def n_training_samples_def ncp_start_def
        ncp_filename_def load_results_def ncp_iteration_def already_recorded_def ncp_results_def
        rows_of_def Let_def upt_conv_Cons)
  have len: "length ncp_pairs \<le> 50"
    by (simp add: ncp_pairs_def n_training_samples_def)
  show ?thesis
    using rec len
      ncp_rerun_no_duplicates [OF refl refl, of 1 "\<lambda>n s pp. ()" "''EconDensity''" Map.empty "\<lambda>n s pp. ()"]
      ncp_rerun_no_duplicates [OF refl refl, of 50 "\<lambda>n s pp. ()" "''EconDensity''" Map.empty "\<lambda>n s pp. ()"]
    by blast
qed

text \<open>
  C4. The KMN driver killed after its first pass and then started again from the files it
  left: the first run saved its table under \<^verbatim>\<open>results/EconDensity_KMN_results.pkl\<close>, the
  second run looks for \<^verbatim>\<open>EconDensity_KMN_results.pkl\<close>, finds no file, starts from an empty
  table and fits the pair \<open>(100, 0)\<close> again; its save then replaces the table of the first run.
\<close>

theorem kmn_rerun_refits_recorded_pair:
  "fitted (kmn_run_interrupted 1 score ''EconDensity'' Map.empty) = [(100, 0)]
   \<and> disk (kmn_run_interrupted 1 score ''EconDensity'' Map.empty)
        ''results/EconDensity_KMN_results.pkl''
       = Some (results_df (kmn_run_interrupted 1 score ''EconDensity'' Map.empty))
   \<and> disk (kmn_run_interrupted 1 score ''EconDensity'' Map.empty)
        ''EconDensity_KMN_results.pkl'' = None
   \<and> results_df (kmn_start ''EconDensity''
        (disk (kmn_run_interrupted 1 score ''EconDensity'' Map.empty))) = []
   \<and> fitted (kmn_run_interrupted 1 score ''EconDensity''
        (disk (kmn_run_interrupted 1 score ''EconDensity'' Map.empty))) = [(100, 0)]"
  by (simp add: kmn_run_interrupted_def kmn_pairs_def n_training_samples_def kmn_start_def
      kmn_filename_def load_results_def kmn_iteration_def already_recorded_def kmn_result_def
      Let_def upt_conv_Cons)

section \<open>Properties of the symmetric Gaussian-mixture simulator\<close>

text \<open>
  C9. With a finite group and the module-level name \<^verbatim>\<open>G\<close> unbound (the module imported, not
  run as a script), the constructor raises \<^verbatim>\<open>NameError\<close> for the name \<^verbatim>\<open>G\<close>, whatever the
  kernel count, the representations, the standard deviation and the seed: no instance is
  produced.
\<close>

theorem init_unbound_G_raises_NameError:
  assumes "\<not> continuous (rep_group rep_X)" and "module_G ctx = None"
  shows "SymmGaussianMixture_init ctx n rep_X rep_Y std rseed entropy = Inl (NameError ''G'')"
  using assms by (simp add: SymmGaussianMixture_init_def Let_def split: prod.splits)

theorem init_unbound_G_raises_NameError_witness:
  "\<not> continuous (rep_group sign_rep) \<and> module_G (counting_context None) = None
   \<and> SymmGaussianMixture_init (counting_context None) 3 sign_rep trivial_rep (3/2) (Some 7) 0
       = Inl (NameError ''G'')"
proof -
  have a: "\<not> continuous (rep_group sign_rep)" by (simp add: sign_rep_def C2_group_def)
  have b: "module_G (counting_context None) = None" by (simp add: counting_context_def)
  show ?thesis
    using a b init_unbound_G_raises_NameError [OF a b, of 3 trivial_rep "3/2" "Some 7" 0] by simp
qed

lemma init_parameters_seed_free:
  "map_sum id mixture_parameters (SymmGaussianMixture_init ctx n rep_X rep_Y std seed1 e1)
   = map_sum id mixture_parameters (SymmGaussianMixture_init ctx n rep_X rep_Y std seed2 e2)"
  by (simp add: SymmGaussianMixture_init_def RandomState_def Let_def mixture_parameters_def
      split: prod.splits option.splits)

text \<open>
  C7. Two instances built in the same context with the same kernel count, representations
  and standard deviation of the means, but with any two data seeds (given, or absent and
  taken from the operating system), have the same weights, means, X-covariance blocks and
  Y-covariance blocks: the parameters are drawn from the state seeded with 20.
\<close>

theorem mixture_parameters_independent_of_data_seed:
  assumes "SymmGaussianMixture_init ctx n rep_X rep_Y std seed1 e1 = Inr a"
    and "SymmGaussianMixture_init ctx n rep_X rep_Y std seed2 e2 = Inr b"
  shows "weights a = weights b \<and> means a = means b
    \<and> covariances_x a = covariances_x b \<and> covariances_y a = covariances_y b"
  using init_parameters_seed_free [of ctx n rep_X rep_Y std seed1 e1 seed2 e2] assms
  by (simp add: mixture_parameters_def)


lemma init_succeeds:
  assumes "\<not> continuous (rep_group rep_X)" and "module_G ctx = Some G'"
  shows "\<exists>inst. SymmGaussianMixture_init ctx n rep_X rep_Y std rseed entropy = Inr inst"
  using assms by (simp add: SymmGaussianMixture_init_def Let_def split: prod.splits)

theorem mixture_parameters_independent_of_data_seed_witness:
  "\<exists>a b. SymmGaussianMixture_init (counting_context (Some C2_group)) 3 sign_rep trivial_rep (3/2)
            (Some 7) 0 = Inr a
     \<and> SymmGaussianMixture_init (counting_context (Some C2_group)) 3 sign_rep trivial_rep (3/2)
            None 11 = Inr b
     \<and> random_state a \<noteq> random_state b
     \<and> weights a = weights b \<and> means a = means b
     \<and> covariances_x a = covariances_x b \<and> covariances_y a = covariances_y b"
proof -
  have fin: "\<not> continuous (rep_group sign_rep)" by (simp add: sign_rep_def C2_group_def)
  have G: "module_G (counting_context (Some C2_group)) = Some C2_group"
    by (simp add: counting_context_def)
  obtain a where a: "SymmGaussianMixture_init (counting_context (Some C2_group)) 3 sign_rep
      trivial_rep (3/2) (Some 7) 0 = Inr a"
    using init_succeeds [OF fin G] by blast
  obtain b where b: "SymmGaussianMixture_init (counting_context (Some C2_group)) 3 sign_rep
      trivial_rep (3/2) None 11 = Inr b"
    using init_succeeds [OF fin G] by blast
  have "random_state a = 7"
    using a by (auto simp: SymmGaussianMixture_init_def RandomState_def Let_def
        counting_context_def sign_rep_def C2_group_def split: prod.splits)
  moreover have "random_state b = 11"
    using b by (auto simp: SymmGaussianMixture_init_def RandomState_def Let_def
        counting_context_def sign_rep_def C2_group_def split: prod.splits)
  ultimately have "random_state a \<noteq> random_state b" by simp
  with a b mixture_parameters_independent_of_data_seed [OF a b] show ?thesis by blast
qed

lemma sum_list_divide: "sum_list (map (\<lambda>w. w / c) ws) = sum_list ws / (c::real)"
  by (induction ws) (simp_all add: add_divide_distrib)

lemma sum_list_concat_replicate:
  "sum_list (concat (replicate k ws)) = real k * sum_list (ws::real list)"
  by (induction k) (simp_all add: algebra_simps)

lemma list_all_divide_nonneg:
  "list_all (\<lambda>w. 0 \<le> w) ws \<Longrightarrow> 0 \<le> (c::real) \<Longrightarrow> list_all (\<lambda>w. 0 \<le> w) (map (\<lambda>w. w / c) ws)"
  by (simp add: list_all_iff)

lemma list_all_concat_replicate:
  "list_all P ws \<Longrightarrow> list_all P (concat (replicate k ws))"
  by (induction k) simp_all

lemma init_weights:
  assumes "\<not> continuous (rep_group rep_X)" and "module_G ctx = Some G'"
    and "SymmGaussianMixture_init ctx n rep_X rep_Y std rseed entropy = Inr inst"
    and "w0 = fst (sample_weights ctx (RandomState ctx (Some 20) entropy) n)"
  shows "weights inst = map (\<lambda>w. w / sum_list (concat (replicate (group_order G') w0)))
                          (concat (replicate (group_order G') w0))"
  using assms
  by (auto simp: SymmGaussianMixture_init_def Let_def split: prod.splits)

text \<open>
  C3. Let the draws of \<^verbatim>\<open>_sample_weights\<close> lie in \<open>[0, 1)\<close>, as \<^verbatim>\<open>RandomState.random\<close> returns
  them, with a positive sum (at least one draw is not exactly zero). Then the weights
  \<^verbatim>\<open>_sample_weights\<close> returns are non-negative and sum to one; and for a finite group, with
  the name \<^verbatim>\<open>G\<close> bound to a group of positive order, the constructor returns an instance
  whose weights, the first weights repeated once per group element and renormalised, are
  again non-negative and sum to one.
\<close>

theorem weights_sum_to_one:
  assumes draws: "draws = fst (random_sample ctx (RandomState ctx (Some 20) entropy) n)"
    and range: "list_all (\<lambda>w. 0 \<le> w \<and> w < 1) draws"
    and pos: "0 < sum_list draws"
    and fin: "\<not> continuous (rep_group rep_X)"
    and G: "module_G ctx = Some G'"
    and ord: "0 < group_order G'"
  shows "list_all (\<lambda>w. 0 \<le> w) (fst (sample_weights ctx (RandomState ctx (Some 20) entropy) n))
    \<and> sum_list (fst (sample_weights ctx (RandomState ctx (Some 20) entropy) n)) = 1
    \<and> (\<exists>inst. SymmGaussianMixture_init ctx n rep_X rep_Y std rseed entropy = Inr inst
          \<and> length (weights inst) = group_order G' * length draws
          \<and> list_all (\<lambda>w. 0 \<le> w) (weights inst)
          \<and> sum_list (weights inst) = 1)"
proof -
  define w0 where "w0 = fst (sample_weights ctx (RandomState ctx (Some 20) entropy) n)"
  have w0: "w0 = map (\<lambda>w. w / sum_list draws) draws"
    by (simp add: w0_def draws sample_weights_def split: prod.splits)
  have nonneg: "list_all (\<lambda>w. 0 \<le> w) draws"
    using range by (simp add: list_all_iff)
  have w0_nonneg: "list_all (\<lambda>w. 0 \<le> w) w0"
    unfolding w0 using nonneg pos by (intro list_all_divide_nonneg) simp_all
  have w0_sum: "sum_list w0 = 1"
    unfolding w0 using pos by (simp add: sum_list_divide)
  define w1 where "w1 = concat (replicate (group_order G') w0)"
  have w1_sum: "sum_list w1 = real (group_order G')"
    by (simp add: w1_def sum_list_concat_replicate w0_sum)
  have w1_nonneg: "list_all (\<lambda>w. 0 \<le> w) w1"
    unfolding w1_def using w0_nonneg by (rule list_all_concat_replicate)
  obtain inst where inst: "SymmGaussianMixture_init ctx n rep_X rep_Y std rseed entropy = Inr inst"
    using init_succeeds [OF fin G] by blast
  have w: "weights inst = map (\<lambda>w. w / sum_list w1) w1"
    unfolding w1_def using init_weights [OF fin G inst w0_def] .
  have "length (weights inst) = group_order G' * length draws"
    by (simp add: w w1_def w0 length_concat sum_list_replicate)
  moreover have "list_all (\<lambda>w. 0 \<le> w) (weights inst)"
    unfolding w using w1_nonneg by (intro list_all_divide_nonneg) (simp_all add: w1_sum)
  moreover have "sum_list (weights inst) = 1"
    unfolding w using ord by (simp add: sum_list_divide w1_sum)
  ultimately show ?thesis using w0_nonneg w0_sum inst unfolding w0_def by blast
qed

theorem weights_sum_to_one_witness:
  "list_all (\<lambda>w. 0 \<le> w \<and> w < 1)
     (fst (random_sample (counting_context (Some C2_group))
        (RandomState (counting_context (Some C2_group)) (Some 20) 0) 3))
   \<and> 0 < sum_list (fst (random_sample (counting_context (Some C2_group))
        (RandomState (counting_context (Some C2_group)) (Some 20) 0) 3))
   \<and> \<not> continuous (rep_group sign_rep)
   \<and> module_G (counting_context (Some C2_group)) = Some C2_group
   \<and> 0 < group_order C2_group
   \<and> sum_list (fst (sample_weights (counting_context (Some C2_group))
        (RandomState (counting_context (Some C2_group)) (Some 20) 0) 3)) = 1
   \<and> (\<exists>inst. SymmGaussianMixture_init (counting_context (Some C2_group)) 3 sign_rep trivial_rep
          (3/2) (Some 7) 0 = Inr inst
        \<and> length (weights inst) = 6 \<and> sum_list (weights inst) = 1)"
proof -
  let ?ctx = "counting_context (Some C2_group)"
  let ?draws = "fst (random_sample ?ctx (RandomState ?ctx (Some 20) 0) 3)"
  have d: "?draws = [1/2, 1/2, 1/2]"
    by (simp add: counting_context_def RandomState_def numeral_3_eq_3)
  have range: "list_all (\<lambda>w. 0 \<le> w \<and> w < 1) ?draws" unfolding d by simp
  have pos: "0 < sum_list ?draws" unfolding d by simp
  have fin: "\<not> continuous (rep_group sign_rep)" by (simp add: sign_rep_def C2_group_def)
  have G: "module_G ?ctx = Some C2_group" by (simp add: counting_context_def)
  have ord: "0 < group_order C2_group" by (simp add: C2_group_def)
  have len: "group_order C2_group * length ?draws = 6" unfolding d by (simp add: C2_group_def)
  show ?thesis
    using range pos fin G ord len
      weights_sum_to_one [OF refl range pos fin G ord, of trivial_rep "3/2" "Some 7"]
    by auto
qed

section \<open>Properties of the iterative-whitening layer\<close>

lemma py_eq_dim: "\<not> py_eq (BoundMethod ''dim'') (PyInt 2)"
  by simp

lemma compute_whitening_matrix_debug:
  "compute_whitening_matrix True layer X = Inl (AssertionError ''Only supporting 2D Tensors'')"
  by (simp add: compute_whitening_matrix_def)

lemma compute_whitening_matrix_cases:
  "compute_whitening_matrix False layer X = Inr r \<Longrightarrow>
   (\<exists>e. r = ExceptionObject e) \<or> (\<exists>a b. r = Tuple [Tensor a, Tensor b])"
  by (auto simp: compute_whitening_matrix_def Let_def split: if_splits)

text \<open>
  C6. The layer as written never reaches the update of the running statistics or the
  return of \<^verbatim>\<open>forward\<close>: the constructor raises \<^verbatim>\<open>AttributeError\<close> at the first
  \<^verbatim>\<open>register_buffer\<close>; and on any layer value and any batch \<open>X\<close>, \<^verbatim>\<open>forward\<close> raises
  \<^verbatim>\<open>AssertionError\<close> when assertions run and \<^verbatim>\<open>TypeError\<close> (one argument passed for two
  parameters) when they do not.
\<close>

theorem forward_never_returns:
  "IterativeWhitening_init isize iterations e m
     = Inl (AttributeError ''cannot assign buffer before Module.__init__() call'')
   \<and> forward True layer X = Inl (AssertionError ''Only supporting 2D Tensors'')
   \<and> forward False layer X
     = Inl (TypeError ''_update_running_stats() missing 1 required positional argument: whitening_mat'')"
proof -
  have "forward False layer X
     = Inl (TypeError ''_update_running_stats() missing 1 required positional argument: whitening_mat'')"
  proof (cases "compute_whitening_matrix False layer X")
    case (Inl err)
    then show ?thesis by (simp add: compute_whitening_matrix_def Let_def split: if_splits)
  next
    case (Inr r)
    from compute_whitening_matrix_cases [OF Inr] show ?thesis
      by (auto simp: forward_def Inr)
  qed
  then show ?thesis
    by (simp add: forward_def compute_whitening_matrix_debug IterativeWhitening_init_def
        register_buffer_def)
qed

text \<open>
  C8. A batch of width 3 given to a layer of \<^verbatim>\<open>input_size\<close> 2: with assertions off the call
  returns normally, its value the \<^verbatim>\<open>ValueError\<close> object; with assertions on it raises the
  \<^verbatim>\<open>AssertionError\<close> of the first line, which a batch of the right width raises as well.
\<close>

theorem width_mismatch_returns_exception_object:
  "compute_whitening_matrix False
     \<lparr>input_size = 2, newton_iterations = 5, eps = 1 / 100000, momentum = 1 / 10,
      running_mean = [[0, 0]], running_whitening_mat = [[0, 0], [0, 0]]\<rparr>
     [[1, 2, 3], [4, 5, 6]]
   = Inr (ExceptionObject (ValueError
       ''The feature dimension of the input tensor does not match the input_size attribute''))
   \<and> compute_whitening_matrix True
     \<lparr>input_size = 2, newton_iterations = 5, eps = 1 / 100000, momentum = 1 / 10,
      running_mean = [[0, 0]], running_whitening_mat = [[0, 0], [0, 0]]\<rparr>
     [[1, 2, 3], [4, 5, 6]]
   = Inl (AssertionError ''Only supporting 2D Tensors'')
   \<and> compute_whitening_matrix True
     \<lparr>input_size = 2, newton_iterations = 5, eps = 1 / 100000, momentum = 1 / 10,
      running_mean = [[0, 0]], running_whitening_mat = [[0, 0], [0, 0]]\<rparr>
     [[1, 2], [4, 5]]
   = Inl (AssertionError ''Only supporting 2D Tensors'')"
  by (simp add: compute_whitening_matrix_def ncols_def)

section \<open>Properties of the array operations\<close>

lemma length_mk_vec: "length (mk_vec n f) = n"
  by (simp add: mk_vec_def)

lemma nth_mk_vec: "i < n \<Longrightarrow> mk_vec n f ! i = f i"
  by (simp add: mk_vec_def)

lemma length_mk_mat: "length (mk_mat r c f) = r"
  by (simp add: mk_mat_def)

lemma nth_mk_mat_row: "i < r \<Longrightarrow> mk_mat r c f ! i = map (f i) [0..<c]"
  by (simp add: mk_mat_def)

lemma nth_mk_mat: "i < r \<Longrightarrow> j < c \<Longrightarrow> mk_mat r c f ! i ! j = f i j"
  by (simp add: mk_mat_def)

lemma is_mat_mk_mat: "is_mat r c (mk_mat r c f)"
  by (simp add: is_mat_def mk_mat_def list_all_iff)

lemma is_mat_length: "is_mat r c A \<Longrightarrow> length A = r"
  by (simp add: is_mat_def)

lemma is_mat_row: "is_mat r c A \<Longrightarrow> i < r \<Longrightarrow> length (A ! i) = c"
  by (simp add: is_mat_def list_all_length)

lemma is_mat_nrows: "is_mat r c A \<Longrightarrow> nrows A = r"
  by (simp add: is_mat_def nrows_def)

lemma is_mat_ncols: "is_mat r c A \<Longrightarrow> 0 < r \<Longrightarrow> ncols A = c"
  by (cases A) (simp_all add: is_mat_def ncols_def)

lemma mat_eqI:
  assumes "is_mat r c A" and "is_mat r c B"
    and "\<And>i j. i < r \<Longrightarrow> j < c \<Longrightarrow> A ! i ! j = B ! i ! j"
  shows "A = B"
proof (rule nth_equalityI)
  show "length A = length B" using assms(1,2) by (simp add: is_mat_def)
next
  fix i assume "i < length A"
  then have i: "i < r" using assms(1) by (simp add: is_mat_def)
  show "A ! i = B ! i"
  proof (rule nth_equalityI)
    show "length (A ! i) = length (B ! i)"
      using is_mat_row [OF assms(1) i] is_mat_row [OF assms(2) i] by simp
  next
    fix j assume "j < length (A ! i)"
    then have "j < c" using is_mat_row [OF assms(1) i] by simp
    then show "A ! i ! j = B ! i ! j" using assms(3) i by simp
  qed
qed

lemma sum_upto_sum: "sum_upto n f = (\<Sum>k<n. f k)"
  by (simp add: sum_upto_def interv_sum_list_conv_sum_set_nat atLeast0LessThan)

lemma sum_list_nth: "sum_list xs = (\<Sum>k<length xs. xs ! k)"
  by (simp add: sum_list_sum_nth atLeast0LessThan)

lemma map2_nth:
  "length xs = n \<Longrightarrow> length ys = n \<Longrightarrow> map2 f xs ys = map (\<lambda>i. f (xs ! i) (ys ! i)) [0..<n]"
  by (rule nth_equalityI) simp_all

lemma is_mat_matmul: "is_mat (nrows A) (ncols B) (matmul A B)"
  unfolding matmul_def by (rule is_mat_mk_mat)

lemma nth_matmul:
  "i < nrows A \<Longrightarrow> j < ncols B \<Longrightarrow> matmul A B ! i ! j = (\<Sum>k<ncols A. A ! i ! k * B ! k ! j)"
  by (simp add: matmul_def nth_mk_mat sum_upto_sum)

section \<open>Properties of the NCP operator model\<close>

lemmas array_defs = nrows_def ncols_def mk_mat_def mk_vec_def sum_upto_def transpose_mat_def
  matmul_def matvec_def eye_def diag_def trace_def scale_mat_def add_mat_def sub_mat_def col_def

lemma toy_postprocess_UV: "postprocess_UV scalar_linalg toy_model (Some [[3]]) = Inr ([[3]], [1], [[1], [-1]])"
  by (simp add: postprocess_UV_def scalar_linalg_def toy_model_def singular_values_def array_defs sqrtmh_def
      clamp_small_def filter_reduced_rank_svals_def Let_def upt_conv_Cons real_sqrt_divide)

lemma sum_list_concat_map: "sum_list (concat xss) = sum_list (map sum_list (xss::real list list))"
  by (induction xss) simp_all

lemma collect_map_Inr: "collect (map (\<lambda>x. Inr (f x)) xs) = Inr (map f xs)"
  by (induction xs) simp_all

lemma broadcast_mul_same:
  "length a = length b \<Longrightarrow> broadcast_mul a b = Inr (map2 np_mul a b)"
  by (simp add: broadcast_mul_def)

lemma map2_np_mul_Finite:
  "map2 np_mul (map Finite a) (map Finite b) = map Finite (map2 (\<lambda>x y. x * y) a b)"
  by (induction a arbitrary: b) (auto simp: zip_Cons1 split: list.splits)

lemma np_sum_Finite: "np_sum (map Finite xs) = Finite (sum_list xs)"
  by (induction xs) (simp_all add: np_sum_def)

lemma np_sum_Finite_map: "np_sum (map (\<lambda>x. Finite (f x)) xs) = Finite (sum_list (map f xs))"
  using np_sum_Finite [of "map f xs"] by (simp add: comp_def)

lemma outer_ones:
  "outer fy (replicate d 1) = map (\<lambda>i. replicate d (fy ! i)) [0..<length fy]"
proof -
  have "map (\<lambda>j. fy ! i * replicate d 1 ! j) [0..<d] = replicate d (fy ! i)" for i
    by (rule nth_equalityI) simp_all
  then show ?thesis by (simp add: outer_def mk_mat_def)
qed

lemma np_mean_outer_ones:
  assumes "0 < d" and "fy \<noteq> []"
  shows "np_mean (concat (outer fy (replicate d 1))) = Finite (sum_list fy / real (length fy))"
proof -
  have s: "sum_list (concat (map (\<lambda>i. replicate d (fy ! i)) [0..<length fy]))
      = real d * sum_list fy"
  proof -
    have "sum_list (concat (map (\<lambda>i. replicate d (fy ! i)) [0..<length fy]))
        = sum_list (map (\<lambda>i. real d * fy ! i) [0..<length fy])"
      by (simp add: sum_list_concat_map comp_def sum_list_replicate)
    also have "\<dots> = real d * sum_list (map (\<lambda>i. fy ! i) [0..<length fy])"
      by (simp add: sum_list_const_mult)
    finally show ?thesis by (simp add: map_nth)
  qed
  have l: "length (concat (map (\<lambda>i. replicate d (fy ! i)) [0..<length fy])) = length fy * d"
    by (simp add: length_concat comp_def sum_list_triv)
  have ne: "concat (map (\<lambda>i. replicate d (fy ! i)) [0..<length fy]) \<noteq> []"
    using l assms by (metis length_0_conv length_greater_0_conv mult_is_0 less_numeral_extra(3))
  show ?thesis
    using assms ne by (simp add: np_mean_def outer_ones s l)
qed

lemma mul_rows_outer:
  assumes Vy: "is_mat n d Vy" and fy: "length fy = n"
  shows "mul_rows Vy (outer fy (replicate d 1))
    = Inr (map (\<lambda>j. map (\<lambda>x. x * fy ! j) (Vy ! j)) [0..<n])"
proof -
  let ?fY = "outer fy (replicate d 1)"
  have len: "length Vy = length ?fY" using Vy fy by (simp add: outer_ones is_mat_def)
  have "map2 (map2 (\<lambda>x y. x * y)) Vy ?fY = map (\<lambda>j. map (\<lambda>x. x * fy ! j) (Vy ! j)) [0..<n]"
  proof (rule nth_equalityI)
    show "length (map2 (map2 (\<lambda>x y. x * y)) Vy ?fY)
        = length (map (\<lambda>j. map (\<lambda>x. x * fy ! j) (Vy ! j)) [0..<n])"
      using Vy fy by (simp add: outer_ones is_mat_def)
  next
    fix j assume "j < length (map2 (map2 (\<lambda>x y. x * y)) Vy ?fY)"
    then have j: "j < n" using Vy fy by (simp add: outer_ones is_mat_def)
    have l: "length (Vy ! j) = d" using is_mat_row [OF Vy j] .
    have "map2 (map2 (\<lambda>x y. x * y)) Vy ?fY ! j
        = map2 (\<lambda>x y. x * y) (Vy ! j) (replicate d (fy ! j))"
      using j Vy fy by (simp add: outer_ones is_mat_def)
    also have "\<dots> = map (\<lambda>x. x * fy ! j) (Vy ! j)"
      using l by (intro nth_equalityI) simp_all
    finally show "map2 (map2 (\<lambda>x y. x * y)) Vy ?fY ! j
        = map (\<lambda>j. map (\<lambda>x. x * fy ! j) (Vy ! j)) [0..<n] ! j"
      using j by simp
  qed
  then show ?thesis using len by (simp add: mul_rows_def)
qed

lemma mean_axis0_products:
  assumes Vy: "is_mat n d Vy" and n: "0 < n"
  shows "mean_axis0 d (map (\<lambda>j. map (\<lambda>x. x * fy ! j) (Vy ! j)) [0..<n])
    = map (\<lambda>i. Finite ((\<Sum>j<n. Vy ! j ! i * fy ! j) / real n)) [0..<d]"
proof -
  have "np_mean (map (\<lambda>row. row ! i) (map (\<lambda>j. map (\<lambda>x. x * fy ! j) (Vy ! j)) [0..<n]))
      = Finite ((\<Sum>j<n. Vy ! j ! i * fy ! j) / real n)" if i: "i < d" for i
  proof -
    have "map (\<lambda>row. row ! i) (map (\<lambda>j. map (\<lambda>x. x * fy ! j) (Vy ! j)) [0..<n])
        = map (\<lambda>j. Vy ! j ! i * fy ! j) [0..<n]"
      using i is_mat_row [OF Vy] by simp
    then show ?thesis
      using n by (simp add: np_mean_def interv_sum_list_conv_sum_set_nat atLeast0LessThan)
  qed
  then show ?thesis by (simp add: mean_axis0_def mk_vec_def)
qed

lemma row_term:
  assumes "length sing_val = d" and "length ux = d" and "length e = d"
  shows "sum_list (map2 (\<lambda>x y. x * y) (map2 (\<lambda>x y. x * y) sing_val ux) e)
    = (\<Sum>i<d. sing_val ! i * ux ! i * e ! (i::nat) :: real)"
proof -
  have "map2 (\<lambda>x y. x * y) (map2 (\<lambda>x y. x * y) sing_val ux) e
      = map (\<lambda>i. sing_val ! i * ux ! i * e ! i) [0..<d]"
    using assms by (intro nth_equalityI) simp_all
  then show ?thesis
    by (simp add: interv_sum_list_conv_sum_set_nat atLeast0LessThan)
qed

lemma vector_times_Finite:
  assumes "list_all (\<lambda>row. length row = length sv) Ux"
  shows "vector_times (map Finite sv) (map (map Finite) Ux)
    = Inr (map (\<lambda>row. map Finite (map2 (\<lambda>x y. x * y) sv row)) Ux)"
proof -
  have "map (\<lambda>row. broadcast_mul (map Finite sv) row) (map (map Finite) Ux)
      = map (\<lambda>row. Inr (map Finite (map2 (\<lambda>x y. x * y) sv row))) Ux"
    using assms by (auto simp: list_all_iff broadcast_mul_same map2_np_mul_Finite)
  then show ?thesis
    unfolding vector_times_def by (simp only: collect_map_Inr)
qed

lemma times_vector_Finite:
  assumes "list_all (\<lambda>row. length row = length e) T"
  shows "times_vector (map (map Finite) T) (map Finite e)
    = Inr (map (\<lambda>row. map Finite (map2 (\<lambda>x y. x * y) row e)) T)"
proof -
  have "map (\<lambda>row. broadcast_mul row (map Finite e)) (map (map Finite) T)
      = map (\<lambda>row. Inr (map Finite (map2 (\<lambda>x y. x * y) row e))) T"
    using assms by (auto simp: list_all_iff broadcast_mul_same map2_np_mul_Finite)
  then show ?thesis
    unfolding times_vector_def by (simp only: collect_map_Inr)
qed

text \<open>
  C1, amended. Let the post-processing path that \<^verbatim>\<open>postprocessing\<close> selects
  (\<^verbatim>\<open>postprocess_UV\<close> when true, \<^verbatim>\<open>postprocess_UV_tmp\<close> when false) return
  \<open>(Ux, sing_val, Vy)\<close> at \<open>X_test\<close>, with \<open>Vy\<close> of \<open>n > 0\<close> rows and \<open>d > 0\<close> columns, \<open>d\<close>
  singular values and rows of \<open>Ux\<close> of width \<open>d\<close>, and let the observable give \<open>n\<close> values
  \<open>fy\<close> on the retained training \<open>Y\<close>. Then \<^verbatim>\<open>predict\<close> returns, for every row \<open>ux\<close> of \<open>Ux\<close>,
  the mean of \<open>fy\<close> (the bias: the mean of \<open>fy\<close> broadcast across the \<open>d\<close> columns) plus the
  sum over \<open>i\<close> of \<open>sing_val\<^sub>i * ux\<^sub>i * E\<^sub>i\<close>, where \<open>E\<^sub>i\<close> is the mean over the training rows
  \<open>j\<close> of \<open>Vy\<^sub>j\<^sub>i * fy\<^sub>j\<close>.
\<close>

theorem predict_formula:
  assumes pp: "(if postprocessing then postprocess_UV la m (Some X_test)
                else Inr (postprocess_UV_tmp m X_test)) = Inr (Ux, sing_val, Vy)"
    and fy: "fy = concat (observable (training_Y m))"
    and n: "length fy = n" "0 < n"
    and Vy: "is_mat n d Vy" and d: "0 < d"
    and sv: "length sing_val = d"
    and Ux: "list_all (\<lambda>row. length row = d) Ux"
  shows "predict la m X_test observable postprocessing
    = Inr (map (\<lambda>ux. Finite (sum_list fy / real n
                  + (\<Sum>i<d. sing_val ! i * ux ! i * ((\<Sum>j<n. Vy ! j ! i * fy ! j) / real n))))
             Ux)"
proof -
  let ?E = "map (\<lambda>i. (\<Sum>j<n. Vy ! j ! i * fy ! j) / real n) [0..<d]"
  let ?T = "map (\<lambda>row. map2 (\<lambda>x y. x * y) sing_val row) Ux"
  have nc: "ncols Vy = d" using is_mat_ncols [OF Vy n(2)] .
  have ne: "fy \<noteq> []" using n by auto
  have bias: "np_mean (concat (outer fy (replicate d 1))) = Finite (sum_list fy / real n)"
    using np_mean_outer_ones [OF d ne] n by simp
  have prod: "mul_rows Vy (outer fy (replicate d 1))
      = Inr (map (\<lambda>j. map (\<lambda>x. x * fy ! j) (Vy ! j)) [0..<n])"
    using mul_rows_outer [OF Vy n(1)] .
  have e: "mean_axis0 d (map (\<lambda>j. map (\<lambda>x. x * fy ! j) (Vy ! j)) [0..<n]) = map Finite ?E"
    using mean_axis0_products [OF Vy n(2), of fy] by (simp add: comp_def)
  have Ux': "list_all (\<lambda>row. length row = length sing_val) Ux" using Ux sv by simp
  have t1: "vector_times (map Finite sing_val) (map (map Finite) Ux) = Inr (map (map Finite) ?T)"
    using vector_times_Finite [OF Ux'] by (simp add: comp_def)
  have T: "list_all (\<lambda>row. length row = length ?E) ?T"
    using Ux sv by (simp add: list_all_iff)
  have t2: "times_vector (map (map Finite) ?T) (map Finite ?E)
      = Inr (map (\<lambda>row. map Finite (map2 (\<lambda>x y. x * y) row ?E)) ?T)"
    using times_vector_Finite [OF T] .
  have row: "sum_list (map2 (\<lambda>x y. x * y) (map2 (\<lambda>x y. x * y) sing_val ux) ?E)
      = (\<Sum>i<d. sing_val ! i * ux ! i * ((\<Sum>j<n. Vy ! j ! i * fy ! j) / real n))"
    if "ux \<in> set Ux" for ux
  proof -
    have "length ux = d" using Ux that by (simp add: list_all_iff)
    from row_term [OF sv this, of ?E] show ?thesis by simp
  qed
  show ?thesis
    unfolding predict_def pp sum.case prod.case Let_def fy [symmetric] nc bias prod e t1 t2
    by (simp add: comp_def np_sum_Finite_map row cong: map_cong)
qed

theorem predict_formula_witness:
  "postprocess_UV scalar_linalg toy_model (Some [[3]]) = Inr ([[3]], [1], [[1], [-1]])
   \<and> postprocess_UV_tmp toy_model [[3]] = ([[3]], [1], [[2], [-2]])
   \<and> predict scalar_linalg toy_model [[3]] (\<lambda>Y. Y) True = Inr [Finite 6]
   \<and> predict scalar_linalg toy_model [[3]] (\<lambda>Y. Y) False = Inr [Finite 12]"
proof -
  have tmp: "postprocess_UV_tmp toy_model [[3]] = ([[3]], [1], [[2], [-2]])"
    by (simp add: postprocess_UV_tmp_def singular_values_def toy_model_def)
  have fy: "[2, -2] = concat ((\<lambda>Y. Y) (training_Y toy_model))"
    by (simp add: toy_model_def)
  have a: "predict scalar_linalg toy_model [[3]] (\<lambda>Y. Y) True = Inr [Finite 6]"
    using predict_formula [where postprocessing = True and la = scalar_linalg and m = toy_model
        and X_test = "[[3]]" and observable = "\<lambda>Y. Y" and Ux = "[[3]]" and sing_val = "[1]"
        and Vy = "[[1], [-1]]" and fy = "[2, -2]" and n = 2 and d = 1]
    by (simp add: toy_postprocess_UV fy [symmetric] is_mat_def numeral_2_eq_2)
  have b: "predict scalar_linalg toy_model [[3]] (\<lambda>Y. Y) False = Inr [Finite 12]"
    using predict_formula [where postprocessing = False and la = scalar_linalg and m = toy_model
        and X_test = "[[3]]" and observable = "\<lambda>Y. Y" and Ux = "[[3]]" and sing_val = "[1]"
        and Vy = "[[2], [-2]]" and fy = "[2, -2]" and n = 2 and d = 1]
    by (simp add: tmp fy [symmetric] is_mat_def numeral_2_eq_2)
  show ?thesis using toy_postprocess_UV tmp a b by simp
qed

lemma collapsed_postprocess_UV_test:
  "postprocess_UV scalar_linalg collapsed_model (Some [[3]]) = Inr ([[]], [], [[], []])"
  by (simp add: postprocess_UV_def scalar_linalg_def collapsed_model_def singular_values_def
      array_defs sqrtmh_def clamp_small_def filter_reduced_rank_svals_def Let_def upt_conv_Cons)

text \<open>
  C1 as stated fails in two settings. In the collapsed model every candidate singular value
  is filtered out, the arrays have width zero, the bias is the mean of an empty array and
  \<^verbatim>\<open>predict\<close> returns \<^verbatim>\<open>nan\<close>, although the observable has the mean \<open>3/2\<close> on the training
  \<open>Y\<close>. With a training \<open>Y\<close> of two columns and the identity observable (the default), \<open>fY\<close>
  has four rows and \<open>Vy\<close> two, and the product \<^verbatim>\<open>Vy * fY\<close> raises \<^verbatim>\<open>ValueError\<close>.
\<close>

theorem predict_nan_or_raises:
  "sum_list (concat (training_Y collapsed_model))
       / real (length (concat (training_Y collapsed_model))) = 3 / 2
   \<and> predict scalar_linalg collapsed_model [[3]] (\<lambda>Y. Y) True = Inr [NaN]
   \<and> predict scalar_linalg two_column_Y_model [[3]] (\<lambda>Y. Y) False
       = Inl (ValueError ''operands could not be broadcast together'')"
proof -
  have a: "predict scalar_linalg collapsed_model [[3]] (\<lambda>Y. Y) True = Inr [NaN]"
    unfolding predict_def if_True collapsed_postprocess_UV_test
    by (simp add: collapsed_model_def outer_def np_mean_def mul_rows_def mean_axis0_def
        vector_times_def times_vector_def broadcast_mul_def np_sum_def array_defs Let_def)
  have b: "predict scalar_linalg two_column_Y_model [[3]] (\<lambda>Y. Y) False
       = Inl (ValueError ''operands could not be broadcast together'')"
    by (simp add: predict_def postprocess_UV_tmp_def singular_values_def two_column_Y_model_def
        outer_def np_mean_def mul_rows_def array_defs Let_def upt_conv_Cons)
  show ?thesis using a b by (simp add: collapsed_model_def)
qed

subsection \<open>The probability queries\<close>

lemma collapsed_postprocess_UV:
  "postprocess_UV scalar_linalg collapsed_model (Some (training_X collapsed_model))
     = Inr ([[], []], [], [[], []])"
  by (simp add: postprocess_UV_def scalar_linalg_def collapsed_model_def singular_values_def
      array_defs sqrtmh_def clamp_small_def filter_reduced_rank_svals_def Let_def upt_conv_Cons)

text \<open>
  C10 as stated fails in three settings in which no retained training \<open>X\<close> lies in
  \<open>interval_A\<close> and the queries do not return a non-finite value. In the collapsed model
  every candidate singular value is filtered out, the arrays have width zero, the sum of the
  correction term is empty, and both queries return the finite value 1. In the model with no
  training data \<^verbatim>\<open>n ** -1\<close> raises \<^verbatim>\<open>ZeroDivisionError\<close>. With a training \<open>X\<close> of two columns
  the mask is two-dimensional and \<^verbatim>\<open>Ux[x_A, :]\<close> raises \<^verbatim>\<open>IndexError\<close>.
\<close>

theorem zero_share_finite_or_raises:
  "mask_values (indicator_fn (training_X collapsed_model) (5, 6)) = [False, False]
   \<and> conditional_probability scalar_linalg collapsed_model (5, 6) (0, 3) True = Inr (Finite 1)
   \<and> joint_probability scalar_linalg collapsed_model (5, 6) (0, 3) True = Inr (Finite 1)
   \<and> mask_values (indicator_fn (training_X empty_model) (5, 6)) = []
   \<and> conditional_probability scalar_linalg empty_model (5, 6) (0, 3) False
       = Inl (ZeroDivisionError ''0.0 cannot be raised to a negative power'')
   \<and> joint_probability scalar_linalg empty_model (5, 6) (0, 3) False
       = Inl (ZeroDivisionError ''0.0 cannot be raised to a negative power'')
   \<and> mask_values (indicator_fn (training_X two_column_X_model) (5, 6))
       = [False, False, False, False]
   \<and> conditional_probability scalar_linalg two_column_X_model (5, 6) (0, 3) False
       = Inl (IndexError ''too many indices for array'')
   \<and> joint_probability scalar_linalg two_column_X_model (5, 6) (0, 3) False
       = Inl (IndexError ''too many indices for array'')"
proof -
  have a: "conditional_probability scalar_linalg collapsed_model (5, 6) (0, 3) True = Inr (Finite 1)"
    unfolding conditional_probability_def selected_postprocess_def if_True
      collapsed_postprocess_UV
    by (simp add: collapsed_model_def indicator_fn_def squeeze_def mask_mean_def np_mean_def
        masked_mean_def broadcast_mul_def np_sum_def array_defs Let_def)
  have b: "joint_probability scalar_linalg collapsed_model (5, 6) (0, 3) True = Inr (Finite 1)"
    unfolding joint_probability_def selected_postprocess_def if_True collapsed_postprocess_UV
    by (simp add: collapsed_model_def indicator_fn_def squeeze_def mask_mean_def np_mean_def
        masked_mean_def broadcast_mul_def np_sum_def array_defs Let_def)
  have c: "conditional_probability scalar_linalg empty_model (5, 6) (0, 3) False
       = Inl (ZeroDivisionError ''0.0 cannot be raised to a negative power'')"
    by (simp add: conditional_probability_def selected_postprocess_def postprocess_UV_tmp_def
        empty_model_def indicator_fn_def squeeze_def masked_mean_def nrows_def Let_def)
  have d: "joint_probability scalar_linalg empty_model (5, 6) (0, 3) False
       = Inl (ZeroDivisionError ''0.0 cannot be raised to a negative power'')"
    by (simp add: joint_probability_def selected_postprocess_def postprocess_UV_tmp_def
        empty_model_def indicator_fn_def squeeze_def masked_mean_def nrows_def Let_def)
  have e: "conditional_probability scalar_linalg two_column_X_model (5, 6) (0, 3) False
       = Inl (IndexError ''too many indices for array'')"
    by (simp add: conditional_probability_def selected_postprocess_def postprocess_UV_tmp_def
        two_column_X_model_def indicator_fn_def squeeze_def masked_mean_def nrows_def Let_def)
  have f: "joint_probability scalar_linalg two_column_X_model (5, 6) (0, 3) False
       = Inl (IndexError ''too many indices for array'')"
    by (simp add: joint_probability_def selected_postprocess_def postprocess_UV_tmp_def
        two_column_X_model_def indicator_fn_def squeeze_def masked_mean_def nrows_def Let_def)
  show ?thesis using a b c d e f
    by (simp add: indicator_fn_def squeeze_def collapsed_model_def empty_model_def
        two_column_X_model_def)
qed

lemma np_mul_NaN_right: "np_mul x NaN = NaN"
  by (cases x) simp_all

lemma np_add_NaN_right: "np_add x NaN = NaN"
  by (cases x) simp_all

lemma np_sum_NaN: "NaN \<in> set xs \<Longrightarrow> np_sum xs = NaN"
  by (induction xs) (auto simp: np_sum_def np_add_NaN_right)

lemma np_sum_replicate_NaN: "0 < d \<Longrightarrow> np_sum (replicate d NaN) = NaN"
  by (rule np_sum_NaN) simp

lemma np_mul_zero_inf: "np_mul (np_mul z (Finite 0)) PosInf = NaN"
  by (cases z) simp_all

text \<open>The mask of an array of one column is the vector of its row tests.\<close>

lemma indicator_one_column:
  assumes "is_mat n 1 X"
  shows "indicator_fn X interval
    = Mask1 (map (\<lambda>row. fst interval \<le> row ! 0 \<and> row ! 0 \<le> snd interval) X)"
proof -
  let ?P = "\<lambda>v. fst interval \<le> v \<and> v \<le> snd interval"
  have rows: "\<And>row. row \<in> set X \<Longrightarrow> length row = 1"
    using assms by (simp add: is_mat_def list_all_iff)
  have r0: "map ?P row ! 0 = ?P (row ! 0)" if "row \<in> set X" for row
    using rows [OF that] by simp
  have all1: "list_all (\<lambda>row. length row = 1) (map (map ?P) X)"
    using rows by (simp add: list_all_iff)
  have m: "map (\<lambda>row. row ! 0) (map (map ?P) X) = map (\<lambda>row. ?P (row ! 0)) X"
    using r0 by simp
  show ?thesis
  proof (cases "length X = 1")
    case True
    then obtain row where X: "X = [row]" by (cases X) auto
    then have "length row = 1" using rows by simp
    then obtain x where "row = [x]" by (cases row) auto
    then show ?thesis using X by (simp add: indicator_fn_def squeeze_def)
  next
    case False
    then show ?thesis using all1 m by (simp add: indicator_fn_def squeeze_def)
  qed
qed

lemma mask_mean_none:
  assumes "list_all (\<lambda>b. \<not> b) v" and "v \<noteq> []"
  shows "np_reciprocal (mask_mean (Mask1 v)) = PosInf"
proof -
  have "map (\<lambda>b. if b then 1 else 0) v = replicate (length v) (0::real)"
    using assms(1) by (intro nth_equalityI) (simp_all add: list_all_length)
  then show ?thesis using assms(2) by (simp add: mask_mean_def np_mean_def sum_list_replicate)
qed

lemma masked_mean_none:
  assumes "list_all (\<lambda>b. \<not> b) v" and "length v = n" and A: "is_mat n d A" and n: "0 < n"
  shows "masked_mean (Mask1 v) A n = Inr (replicate d (Finite 0))"
proof -
  have "filter fst (zip v A) = []"
    using assms(1) by (auto simp: list_all_iff filter_empty_conv dest: set_zip_leftD)
  then show ?thesis
    using assms(2) n is_mat_length [OF A] is_mat_ncols [OF A n]
    by (simp add: masked_mean_def mk_vec_def map_replicate_const)
qed

lemma masked_mean_vector:
  assumes "length v = n" and A: "is_mat n d A" and n: "0 < n"
  shows "\<exists>w. masked_mean (Mask1 v) A n = Inr (map Finite w) \<and> length w = d"
proof -
  let ?w = "map (\<lambda>i. sum_list (map (\<lambda>row. row ! i) (map snd (filter fst (zip v A))))
                  * (1 / real n)) [0..<d]"
  have "masked_mean (Mask1 v) A n = Inr (map Finite ?w)"
    using assms(1) n is_mat_length [OF A] is_mat_ncols [OF A n]
    by (simp add: masked_mean_def mk_vec_def comp_def)
  then show ?thesis by (intro exI [of _ ?w]) simp
qed

text \<open>The products of the two queries when one of the two vectors of means is zero.\<close>

lemma terms_zero_share_X:
  assumes "length sing_val = d" and "length vy = d"
  shows "\<exists>t1. broadcast_mul (map Finite sing_val) (replicate d (Finite 0)) = Inr t1
           \<and> broadcast_mul (map (\<lambda>t. np_mul t PosInf) t1) (map Finite vy) = Inr (replicate d NaN)"
proof -
  let ?t1 = "map2 np_mul (map Finite sing_val) (replicate d (Finite 0))"
  have t1: "?t1 = replicate d (Finite 0)"
    using assms(1) by (intro nth_equalityI) simp_all
  have "map2 np_mul (map (\<lambda>t. np_mul t PosInf) (replicate d (Finite 0))) (map Finite vy)
      = replicate d NaN"
    using assms(2) by (intro nth_equalityI) simp_all
  then show ?thesis
    using assms by (intro exI [of _ ?t1]) (simp add: broadcast_mul_same t1)
qed

lemma terms_zero_share_Y:
  assumes "length sing_val = d" and "length ux = d"
  shows "\<exists>t1 t2. broadcast_mul (map Finite sing_val) (map Finite ux) = Inr t1
           \<and> broadcast_mul (map (\<lambda>t. np_mul t x_inv) t1) (replicate d (Finite 0)) = Inr t2
           \<and> map (\<lambda>t. np_mul t PosInf) t2 = replicate d NaN"
proof -
  let ?t1 = "map2 np_mul (map Finite sing_val) (map Finite ux)"
  let ?t2 = "map2 np_mul (map (\<lambda>t. np_mul t x_inv) ?t1) (replicate d (Finite 0))"
  have "map (\<lambda>t. np_mul t PosInf) ?t2 = replicate d NaN"
    using assms by (intro nth_equalityI) (simp_all add: np_mul_zero_inf)
  then show ?thesis
    using assms by (intro exI [of _ ?t1] exI [of _ ?t2]) (simp add: broadcast_mul_same)
qed

text \<open>
  C10, amended. Let the training \<open>X\<close> and \<open>Y\<close> have one column and \<open>n > 0\<close> rows, and let
  the selected post-processing return \<open>d > 0\<close> singular values with \<open>Ux\<close> and \<open>Vy\<close> of \<open>n\<close>
  rows and \<open>d\<close> columns. If no retained training \<open>X\<close> lies in \<open>interval_A\<close>,
  \<^verbatim>\<open>conditional_probability\<close> and \<^verbatim>\<open>joint_probability\<close> take the reciprocal of a zero mean and
  return \<^verbatim>\<open>nan\<close>, without raising; and if no retained training \<open>Y\<close> lies in \<open>interval_B\<close>,
  \<^verbatim>\<open>joint_probability\<close> returns \<^verbatim>\<open>nan\<close> likewise.
\<close>

theorem zero_share_gives_nan:
  assumes pp: "selected_postprocess la m postprocessing = Inr (Ux, sing_val, Vy)"
    and n: "nrows (training_Y m) = n" "0 < n"
    and X: "is_mat n 1 (training_X m)" and Y: "is_mat n 1 (training_Y m)"
    and d: "0 < d" and sv: "length sing_val = d"
    and Ux: "is_mat n d Ux" and Vy: "is_mat n d Vy"
  shows "(list_all (\<lambda>b. \<not> b) (mask_values (indicator_fn (training_X m) interval_A)) \<longrightarrow>
           conditional_probability la m interval_A interval_B postprocessing = Inr NaN
           \<and> joint_probability la m interval_A interval_B postprocessing = Inr NaN)
       \<and> (list_all (\<lambda>b. \<not> b) (mask_values (indicator_fn (training_Y m) interval_B)) \<longrightarrow>
           joint_probability la m interval_A interval_B postprocessing = Inr NaN)"
proof (intro conjI impI)
  let ?xs = "map (\<lambda>row. fst interval_A \<le> row ! 0 \<and> row ! 0 \<le> snd interval_A) (training_X m)"
  let ?ys = "map (\<lambda>row. fst interval_B \<le> row ! 0 \<and> row ! 0 \<le> snd interval_B) (training_Y m)"
  have xA: "indicator_fn (training_X m) interval_A = Mask1 ?xs"
    using indicator_one_column [OF X] .
  have yB: "indicator_fn (training_Y m) interval_B = Mask1 ?ys"
    using indicator_one_column [OF Y] .
  have lx: "length ?xs = n" using is_mat_length [OF X] by simp
  have ly: "length ?ys = n" using is_mat_length [OF Y] by simp
  {
    assume "list_all (\<lambda>b. \<not> b) (mask_values (indicator_fn (training_X m) interval_A))"
    then have A: "list_all (\<lambda>b. \<not> b) ?xs" by (simp add: xA)
    have ne: "?xs \<noteq> []" using lx n(2) by auto
    have ux: "masked_mean (Mask1 ?xs) Ux n = Inr (replicate d (Finite 0))"
      using masked_mean_none [OF A lx Ux n(2)] .
    obtain w where vy: "masked_mean (Mask1 ?ys) Vy n = Inr (map Finite w)" and lw: "length w = d"
      using masked_mean_vector [OF ly Vy n(2)] by blast
    have inv: "np_reciprocal (mask_mean (Mask1 ?xs)) = PosInf"
      using mask_mean_none [OF A ne] .
    obtain t1 where t1: "broadcast_mul (map Finite sing_val) (replicate d (Finite 0)) = Inr t1"
      and t2: "broadcast_mul (map (\<lambda>t. np_mul t PosInf) t1) (map Finite w) = Inr (replicate d NaN)"
      using terms_zero_share_X [OF sv lw] by blast
    show "conditional_probability la m interval_A interval_B postprocessing = Inr NaN"
      unfolding conditional_probability_def pp sum.case prod.case Let_def n(1) xA yB ux vy inv
        t1 t2
      using d by (simp add: np_sum_replicate_NaN np_add_NaN_right)
    show "joint_probability la m interval_A interval_B postprocessing = Inr NaN"
      unfolding joint_probability_def pp sum.case prod.case Let_def n(1) xA yB ux vy inv t1 t2
      using d by (simp add: np_sum_NaN np_add_NaN_right)
  }
  {
    assume "list_all (\<lambda>b. \<not> b) (mask_values (indicator_fn (training_Y m) interval_B))"
    then have B: "list_all (\<lambda>b. \<not> b) ?ys" by (simp add: yB)
    have ne: "?ys \<noteq> []" using ly n(2) by auto
    have vy: "masked_mean (Mask1 ?ys) Vy n = Inr (replicate d (Finite 0))"
      using masked_mean_none [OF B ly Vy n(2)] .
    obtain u where ux: "masked_mean (Mask1 ?xs) Ux n = Inr (map Finite u)" and lu: "length u = d"
      using masked_mean_vector [OF lx Ux n(2)] by blast
    have inv: "np_reciprocal (mask_mean (Mask1 ?ys)) = PosInf"
      using mask_mean_none [OF B ne] .
    obtain t1 t2 where t1: "broadcast_mul (map Finite sing_val) (map Finite u) = Inr t1"
      and t2: "broadcast_mul (map (\<lambda>t. np_mul t (np_reciprocal (mask_mean (Mask1 ?xs)))) t1)
                 (replicate d (Finite 0)) = Inr t2"
      and t3: "map (\<lambda>t. np_mul t PosInf) t2 = replicate d NaN"
      using terms_zero_share_Y [OF sv lu] by blast
    show "joint_probability la m interval_A interval_B postprocessing = Inr NaN"
      unfolding joint_probability_def pp sum.case prod.case Let_def n(1) xA yB ux vy inv t1 t2 t3
      using d by (simp add: np_sum_replicate_NaN np_add_NaN_right)
  }
qed

lemma toy_selected_postprocess:
  "selected_postprocess scalar_linalg toy_model True = Inr ([[1], [-1]], [1], [[1], [-1]])"
  by (simp add: selected_postprocess_def postprocess_UV_def scalar_linalg_def toy_model_def
      singular_values_def array_defs sqrtmh_def clamp_small_def filter_reduced_rank_svals_def
      Let_def upt_conv_Cons real_sqrt_divide)

theorem zero_share_gives_nan_witness:
  "selected_postprocess scalar_linalg toy_model True = Inr ([[1], [-1]], [1], [[1], [-1]])
   \<and> is_mat 2 1 (training_X toy_model) \<and> is_mat 2 1 (training_Y toy_model)
   \<and> list_all (\<lambda>b. \<not> b) (mask_values (indicator_fn (training_X toy_model) (5, 6)))
   \<and> conditional_probability scalar_linalg toy_model (5, 6) (0, 3) True = Inr NaN
   \<and> joint_probability scalar_linalg toy_model (5, 6) (0, 3) True = Inr NaN
   \<and> list_all (\<lambda>b. \<not> b) (mask_values (indicator_fn (training_Y toy_model) (5, 6)))
   \<and> joint_probability scalar_linalg toy_model (0, 3) (5, 6) True = Inr NaN"
proof -
  have n: "nrows (training_Y toy_model) = 2" "(0::nat) < 2" by (simp_all add: toy_model_def nrows_def)
  have X: "is_mat 2 1 (training_X toy_model)" by (simp add: toy_model_def is_mat_def)
  have Y: "is_mat 2 1 (training_Y toy_model)" by (simp add: toy_model_def is_mat_def)
  have A: "list_all (\<lambda>b. \<not> b) (mask_values (indicator_fn (training_X toy_model) (5, 6)))"
    by (simp add: toy_model_def indicator_fn_def squeeze_def)
  have B: "list_all (\<lambda>b. \<not> b) (mask_values (indicator_fn (training_Y toy_model) (5, 6)))"
    by (simp add: toy_model_def indicator_fn_def squeeze_def)
  have d: "(0::nat) < 1" "length [1::real] = 1" "is_mat 2 1 [[1::real], [-1]]"
    by (simp_all add: is_mat_def)
  show ?thesis
    using toy_selected_postprocess X Y A B
      zero_share_gives_nan [OF toy_selected_postprocess n X Y d(1) d(2) d(3) d(3), of "(5, 6)" "(0, 3)"]
      zero_share_gives_nan [OF toy_selected_postprocess n X Y d(1) d(2) d(3) d(3), of "(0, 3)" "(5, 6)"]
    by blast
qed

subsection \<open>The matrix square root\<close>

lemma list_max_ge: "j < length L \<Longrightarrow> L ! j \<le> list_max L"
proof (induction L arbitrary: j rule: list_max.induct)
  case 1
  then show ?case by simp
next
  case (2 x)
  then show ?case by simp
next
  case (3 x y ys)
  show ?case
  proof (cases j)
    case 0
    then show ?thesis by simp
  next
    case (Suc k)
    then have "k < length (y # ys)" using "3.prems" by simp
    from "3.IH" [OF this] show ?thesis using Suc by simp
  qed
qed

lemma clamp_small_nonneg:
  assumes "0 \<le> e" and "real (length L) * e \<le> 1" and "j < length L"
  shows "0 \<le> clamp_small (list_max L * real (length L) * e) L ! j"
proof (cases "L ! j > list_max L * real (length L) * e")
  case False
  then show ?thesis using assms(3) by (simp add: clamp_small_def)
next
  case True
  have le: "L ! j \<le> list_max L" using list_max_ge [OF assms(3)] .
  have "0 \<le> L ! j"
  proof (rule ccontr)
    assume "\<not> 0 \<le> L ! j"
    then have neg: "L ! j < 0" by simp
    let ?c = "real (length L) * e"
    have c: "0 \<le> ?c" "?c \<le> 1" using assms by simp_all
    have "L ! j * ?c \<ge> L ! j" using neg c
      by (metis less_eq_real_def mult.right_neutral mult_left_mono_neg)
    moreover have "list_max L * ?c \<ge> L ! j * ?c"
      using le c(1) by (simp add: mult_right_mono)
    ultimately have "list_max L * ?c \<ge> L ! j" by linarith
    then show False using True by (simp add: mult.assoc)
  qed
  then show ?thesis using True assms(3) by (simp add: clamp_small_def)
qed

lemma ncols_diag: "0 < length s \<Longrightarrow> ncols (diag s) = length s"
  unfolding diag_def by (rule is_mat_ncols [OF is_mat_mk_mat])

lemma nrows_diag: "nrows (diag s) = length s"
  by (simp add: diag_def nrows_def length_mk_mat)

lemma sum_delta_mult:
  fixes f :: "nat \<Rightarrow> 'a::semiring_0"
  assumes "j < n"
  shows "(\<Sum>k<n. f k * (if k = j then c k else 0)) = f j * c j"
proof -
  have "(\<Sum>k<n. f k * (if k = j then c k else 0)) = (\<Sum>k<n. if k = j then f k * c k else 0)"
    by (intro sum.cong) auto
  also have "\<dots> = f j * c j" using assms by (simp add: sum.delta)
  finally show ?thesis .
qed

lemma scale_columns:
  fixes Q :: "'a::comm_semiring_0 mat"
  assumes Q: "is_mat r n Q" and n: "0 < n" and s: "length s = n"
  shows "map (\<lambda>row. map2 (\<lambda>q l. q * g l) row s) Q = matmul Q (diag (map g s))"
proof (cases "r = 0")
  case True
  then show ?thesis using Q by (simp add: is_mat_def matmul_def mk_mat_def nrows_def)
next
  case False
  then have r: "0 < r" by simp
  have nc: "ncols Q = n" using is_mat_ncols [OF Q r] .
  have nr: "nrows Q = r" using is_mat_nrows [OF Q] .
  have ncd: "ncols (diag (map g s)) = n" using ncols_diag [of "map g s"] n s by simp
  show ?thesis
  proof (rule mat_eqI [where r = r and c = n])
    show "is_mat r n (map (\<lambda>row. map2 (\<lambda>q l. q * g l) row s) Q)"
      using Q s by (auto simp: is_mat_def list_all_iff)
    show "is_mat r n (matmul Q (diag (map g s)))"
      using is_mat_matmul [of Q "diag (map g s)"] nr ncd by simp
  next
    fix i j assume i: "i < r" and j: "j < n"
    have li: "length (Q ! i) = n" using is_mat_row [OF Q i] .
    have lhs: "map (\<lambda>row. map2 (\<lambda>q l. q * g l) row s) Q ! i ! j = Q ! i ! j * g (s ! j)"
      using i j li s Q by (simp add: is_mat_def)
    have "matmul Q (diag (map g s)) ! i ! j
        = (\<Sum>k<n. Q ! i ! k * diag (map g s) ! k ! j)"
      using nth_matmul [of i Q j "diag (map g s)"] i j nr ncd nc by simp
    also have "\<dots> = (\<Sum>k<n. Q ! i ! k * (if k = j then g (s ! k) else 0))"
      using j s by (intro sum.cong) (simp_all add: diag_def nth_mk_mat)
    also have "\<dots> = Q ! i ! j * g (s ! j)" using sum_delta_mult [OF j] .
    finally show "map (\<lambda>row. map2 (\<lambda>q l. q * g l) row s) Q ! i ! j
        = matmul Q (diag (map g s)) ! i ! j"
      using lhs by simp
  qed
qed

lemma length_matvec: "length (matvec A v) = nrows A"
  by (simp add: matvec_def length_mk_vec)

lemma nth_matvec: "i < nrows A \<Longrightarrow> matvec A v ! i = (\<Sum>k<ncols A. A ! i ! k * v ! k)"
  by (simp add: matvec_def nth_mk_vec sum_upto_sum)

lemma matvec_matmul:
  fixes A :: "'a::comm_semiring_0 mat"
  assumes A: "is_mat n n A" and B: "is_mat n n B" and n: "0 < n"
  shows "matvec (matmul A B) v = matvec A (matvec B v)"
proof (rule nth_equalityI)
  show "length (matvec (matmul A B) v) = length (matvec A (matvec B v))"
    by (simp add: length_matvec matmul_def nrows_def length_mk_mat)
next
  fix i assume "i < length (matvec (matmul A B) v)"
  then have i: "i < n"
    using A by (simp add: length_matvec matmul_def nrows_def length_mk_mat is_mat_def)
  have ncA: "ncols A = n" and ncB: "ncols B = n" and nrA: "nrows A = n" and nrB: "nrows B = n"
    using is_mat_ncols [OF A n] is_mat_ncols [OF B n] is_mat_nrows [OF A] is_mat_nrows [OF B]
    by simp_all
  have AB: "is_mat n n (matmul A B)" using is_mat_matmul [of A B] nrA ncB by simp
  have "matvec (matmul A B) v ! i = (\<Sum>k<n. matmul A B ! i ! k * v ! k)"
    using nth_matvec [of i "matmul A B" v] i is_mat_nrows [OF AB] is_mat_ncols [OF AB n] by simp
  also have "\<dots> = (\<Sum>k<n. (\<Sum>l<n. A ! i ! l * B ! l ! k) * v ! k)"
    using i nrA ncB ncA by (intro sum.cong) (simp_all add: nth_matmul)
  also have "\<dots> = (\<Sum>k<n. \<Sum>l<n. A ! i ! l * (B ! l ! k * v ! k))"
    by (simp add: sum_distrib_right mult.assoc)
  also have "\<dots> = (\<Sum>l<n. \<Sum>k<n. A ! i ! l * (B ! l ! k * v ! k))"
    by (rule sum.swap)
  also have "\<dots> = (\<Sum>l<n. A ! i ! l * (\<Sum>k<n. B ! l ! k * v ! k))"
    by (simp add: sum_distrib_left)
  also have "\<dots> = (\<Sum>l<n. A ! i ! l * matvec B v ! l)"
    using nrB ncB by (intro sum.cong) (simp_all add: nth_matvec)
  also have "\<dots> = matvec A (matvec B v) ! i"
    using nth_matvec [of i A "matvec B v"] i nrA ncA by simp
  finally show "matvec (matmul A B) v ! i = matvec A (matvec B v) ! i" .
qed

lemma matvec_scale:
  fixes A :: "'a::comm_semiring_0 mat"
  assumes "length v = ncols A"
  shows "matvec A (map (\<lambda>x. c * x) v) = map (\<lambda>x. c * x) (matvec A v)"
proof (rule nth_equalityI)
  show "length (matvec A (map (\<lambda>x. c * x) v)) = length (map (\<lambda>x. c * x) (matvec A v))"
    by (simp add: length_matvec)
next
  fix i assume "i < length (matvec A (map (\<lambda>x. c * x) v))"
  then have i: "i < nrows A" by (simp add: length_matvec)
  have "matvec A (map (\<lambda>x. c * x) v) ! i = (\<Sum>k<ncols A. A ! i ! k * (c * v ! k))"
    using i assms by (simp add: nth_matvec)
  also have "\<dots> = c * (\<Sum>k<ncols A. A ! i ! k * v ! k)"
    by (simp add: sum_distrib_left mult.left_commute)
  finally show "matvec A (map (\<lambda>x. c * x) v) ! i = map (\<lambda>x. c * x) (matvec A v) ! i"
    using i by (simp add: nth_matvec length_matvec)
qed

text \<open>A matrix \<open>Q diag(s) Qh\<close> with \<open>Qh Q = I\<close> scales column \<open>j\<close> of \<open>Q\<close> by \<open>s\<^sub>j\<close>.\<close>

lemma eigen_action:
  fixes Q :: "'a::comm_ring_1 mat"
  assumes Q: "is_mat n n Q" and Qh: "is_mat n n Qh" and n: "0 < n"
    and orth: "matmul Qh Q = eye n" and s: "length s = n" and j: "j < n"
  shows "matvec (matmul (matmul Q (diag s)) Qh) (col Q j) = map (\<lambda>x. s ! j * x) (col Q j)"
proof (rule nth_equalityI)
  have ncQ: "ncols Q = n" and nrQ: "nrows Q = n" and ncH: "ncols Qh = n" and nrH: "nrows Qh = n"
    using is_mat_ncols [OF Q n] is_mat_nrows [OF Q] is_mat_ncols [OF Qh n] is_mat_nrows [OF Qh]
    by simp_all
  have ncD: "ncols (diag s) = n" and nrD: "nrows (diag s) = n"
    using ncols_diag [of s] nrows_diag [of s] s n by simp_all
  have QD: "is_mat n n (matmul Q (diag s))"
    using is_mat_matmul [of Q "diag s"] nrQ ncD by simp
  have M: "is_mat n n (matmul (matmul Q (diag s)) Qh)"
    using is_mat_matmul [of "matmul Q (diag s)" Qh] is_mat_nrows [OF QD] ncH by simp
  show "length (matvec (matmul (matmul Q (diag s)) Qh) (col Q j)) = length (map (\<lambda>x. s ! j * x) (col Q j))"
    using is_mat_nrows [OF M] Q by (simp add: length_matvec col_def is_mat_def)
  fix i assume "i < length (matvec (matmul (matmul Q (diag s)) Qh) (col Q j))"
  then have i: "i < n" using is_mat_nrows [OF M] by (simp add: length_matvec)
  have colk: "col Q j ! k = Q ! k ! j" if "k < n" for k
    using that Q by (simp add: col_def is_mat_def)
  have QDe: "matmul Q (diag s) ! i ! l = Q ! i ! l * s ! l" if "l < n" for l
  proof -
    have "matmul Q (diag s) ! i ! l = (\<Sum>k<n. Q ! i ! k * diag s ! k ! l)"
      using nth_matmul [of i Q l "diag s"] i that nrQ ncD ncQ by simp
    also have "\<dots> = (\<Sum>k<n. Q ! i ! k * (if k = l then s ! k else 0))"
      using that s by (intro sum.cong) (simp_all add: diag_def nth_mk_mat)
    also have "\<dots> = Q ! i ! l * s ! l" using sum_delta_mult [OF that] .
    finally show ?thesis .
  qed
  have orthe: "(\<Sum>k<n. Qh ! l ! k * Q ! k ! j) = (if l = j then 1 else 0)" if "l < n" for l
  proof -
    have "(\<Sum>k<n. Qh ! l ! k * Q ! k ! j) = matmul Qh Q ! l ! j"
      using nth_matmul [of l Qh j Q] that j nrH ncQ ncH by simp
    also have "\<dots> = (if l = j then 1 else 0)"
      using that j by (simp add: orth eye_def nth_mk_mat)
    finally show ?thesis .
  qed
  have "matvec (matmul (matmul Q (diag s)) Qh) (col Q j) ! i
      = (\<Sum>k<n. matmul (matmul Q (diag s)) Qh ! i ! k * col Q j ! k)"
    using nth_matvec [of i "matmul (matmul Q (diag s)) Qh" "col Q j"] i
      is_mat_nrows [OF M] is_mat_ncols [OF M n] by simp
  also have "\<dots> = (\<Sum>k<n. (\<Sum>l<n. (Q ! i ! l * s ! l) * Qh ! l ! k) * Q ! k ! j)"
  proof (intro sum.cong refl)
    fix k assume "k \<in> {..<n}"
    then have k: "k < n" by simp
    have "matmul (matmul Q (diag s)) Qh ! i ! k
        = (\<Sum>l<n. matmul Q (diag s) ! i ! l * Qh ! l ! k)"
      using nth_matmul [of i "matmul Q (diag s)" k Qh] i k is_mat_nrows [OF QD]
        is_mat_ncols [OF QD n] ncH by simp
    also have "\<dots> = (\<Sum>l<n. (Q ! i ! l * s ! l) * Qh ! l ! k)"
      by (intro sum.cong) (simp_all add: QDe)
    finally show "matmul (matmul Q (diag s)) Qh ! i ! k * col Q j ! k
        = (\<Sum>l<n. (Q ! i ! l * s ! l) * Qh ! l ! k) * Q ! k ! j"
      using colk [OF k] by simp
  qed
  also have "\<dots> = (\<Sum>k<n. \<Sum>l<n. (Q ! i ! l * s ! l) * (Qh ! l ! k * Q ! k ! j))"
    by (simp add: sum_distrib_right mult.assoc)
  also have "\<dots> = (\<Sum>l<n. \<Sum>k<n. (Q ! i ! l * s ! l) * (Qh ! l ! k * Q ! k ! j))"
    by (rule sum.swap)
  also have "\<dots> = (\<Sum>l<n. (Q ! i ! l * s ! l) * (\<Sum>k<n. Qh ! l ! k * Q ! k ! j))"
    by (simp add: sum_distrib_left)
  also have "\<dots> = (\<Sum>l<n. (Q ! i ! l * s ! l) * (if l = j then 1 else 0))"
    by (intro sum.cong) (simp_all add: orthe)
  also have "\<dots> = Q ! i ! j * s ! j"
    using sum_delta_mult [OF j, of "\<lambda>l. Q ! i ! l * s ! l" "\<lambda>l. 1"] by simp
  finally show "matvec (matmul (matmul Q (diag s)) Qh) (col Q j) ! i
      = map (\<lambda>x. s ! j * x) (col Q j) ! i"
    using i Q colk [OF i] by (simp add: col_def is_mat_def mult.commute)
qed


text \<open>
  C2. Let \<^verbatim>\<open>eigh\<close> return for \<open>A\<close> the values \<open>L\<close> and the square matrix \<open>Q\<close> of an
  eigen-decomposition: \<open>Q\<^sup>H Q = I\<close> and \<open>A = Q diag(L) Q\<^sup>H\<close> (so \<open>A\<close> is symmetric, or Hermitian
  for complex entries), and let the size times the machine epsilon be at most one. Let \<open>L'\<close>
  be \<open>L\<close> with every value at or below \<open>max(L) * size * epsilon\<close> replaced by zero. Then
  \<^verbatim>\<open>sqrtmh(A)\<close> is \<open>Q diag(sqrt L') Q\<^sup>H\<close>; its square maps every eigenvector (column of \<open>Q\<close>) of
  a retained value to what \<open>A\<close> maps it to, and every eigenvector of a clamped value to zero.
\<close>

theorem sqrtmh_eigen:
  fixes la :: "('a::real_field) linalg"
  assumes eigh: "eigh la A = (L, Q)"
    and n: "length L = n" "0 < n"
    and Q: "is_mat n n Q" and Qh: "is_mat n n (mH la Q)"
    and orth: "matmul (mH la Q) Q = eye n"
    and dec: "A = matmul (matmul Q (diag (map of_real L))) (mH la Q)"
    and eps: "0 \<le> finfo_eps la" "real n * finfo_eps la \<le> 1"
    and thr: "threshold = list_max L * real n * finfo_eps la"
    and L': "L' = map (\<lambda>l. if l \<le> threshold then 0 else l) L"
  shows "sqrtmh la A = matmul (matmul Q (diag (map (\<lambda>l. of_real (sqrt l)) L'))) (mH la Q)
    \<and> (\<forall>j<n. threshold < L ! j \<longrightarrow>
          matvec (matmul (sqrtmh la A) (sqrtmh la A)) (col Q j) = matvec A (col Q j))
    \<and> (\<forall>j<n. L ! j \<le> threshold \<longrightarrow>
          matvec (matmul (sqrtmh la A) (sqrtmh la A)) (col Q j) = replicate n 0)"
proof -
  let ?s = "map (\<lambda>l. of_real (sqrt l) :: 'a) L'"
  let ?S = "sqrtmh la A"
  have clamp: "L' = clamp_small threshold L"
    by (simp add: L' clamp_small_def not_less cong: if_cong)
  have lenL': "length L' = n" by (simp add: L' n)
  have S: "?S = matmul (matmul Q (diag ?s)) (mH la Q)"
    using scale_columns [OF Q n(2) lenL', of "\<lambda>l. of_real (sqrt l)"]
    by (simp add: sqrtmh_def eigh n(1) thr [symmetric] clamp [symmetric] Let_def)
  have ncH: "ncols (mH la Q) = n" using is_mat_ncols [OF Qh n(2)] .
  have nrQ: "nrows Q = n" using is_mat_nrows [OF Q] .
  have ncD: "ncols (diag ?s) = n" using ncols_diag [of ?s] lenL' n(2) by simp
  have QD: "is_mat n n (matmul Q (diag ?s))"
    using is_mat_matmul [of Q "diag ?s"] nrQ ncD by simp
  have Smat: "is_mat n n ?S"
    unfolding S using is_mat_matmul [of "matmul Q (diag ?s)" "mH la Q"] is_mat_nrows [OF QD] ncH
    by simp
  have lencol: "length (col Q j) = n" for j using Q by (simp add: col_def is_mat_def)
  have sq: "matvec (matmul ?S ?S) (col Q j) = map (\<lambda>x. of_real (L' ! j) * x) (col Q j)"
    if j: "j < n" for j
  proof -
    have act: "matvec ?S (col Q j) = map (\<lambda>x. ?s ! j * x) (col Q j)"
      unfolding S using eigen_action [OF Q Qh n(2) orth _ j, of ?s] lenL' by simp
    have nonneg: "0 \<le> L' ! j"
      using clamp_small_nonneg [OF eps(1), of L j] eps(2) j n(1) clamp thr by simp
    have sj: "?s ! j * ?s ! j = of_real (L' ! j)"
      using j lenL' nonneg by (simp flip: of_real_mult)
    have "matvec (matmul ?S ?S) (col Q j) = matvec ?S (matvec ?S (col Q j))"
      using matvec_matmul [OF Smat Smat n(2)] .
    also have "\<dots> = matvec ?S (map (\<lambda>x. ?s ! j * x) (col Q j))"
      by (simp only: act)
    also have "\<dots> = map (\<lambda>x. ?s ! j * x) (matvec ?S (col Q j))"
      by (rule matvec_scale) (simp add: lencol is_mat_ncols [OF Smat n(2)])
    also have "\<dots> = map (\<lambda>x. ?s ! j * x) (map (\<lambda>x. ?s ! j * x) (col Q j))"
      by (simp only: act)
    also have "\<dots> = map (\<lambda>x. (?s ! j * ?s ! j) * x) (col Q j)"
      by (simp add: mult.assoc)
    finally show ?thesis unfolding sj .
  qed
  have Aact: "matvec A (col Q j) = map (\<lambda>x. of_real (L ! j) * x) (col Q j)" if j: "j < n" for j
    using eigen_action [OF Q Qh n(2) orth _ j, of "map of_real L"] j n(1) dec by simp
  have kept: "matvec (matmul ?S ?S) (col Q j) = matvec A (col Q j)"
    if "j < n" "threshold < L ! j" for j
    using sq [OF that(1)] Aact [OF that(1)] that n(1) by (simp add: L')
  have dropped: "matvec (matmul ?S ?S) (col Q j) = replicate n 0"
    if "j < n" "L ! j \<le> threshold" for j
  proof -
    have "L' ! j = 0" using that n(1) by (simp add: L')
    then have "matvec (matmul ?S ?S) (col Q j) = map (\<lambda>x. 0) (col Q j)"
      using sq [OF that(1)] by simp
    then show ?thesis by (simp add: map_replicate_const lencol)
  qed
  show ?thesis using S kept dropped by blast
qed


theorem sqrtmh_eigen_witness:
  "eigh diagonal_linalg [[1 / 1000000000, 0], [0, 1]] = ([1 / 1000000000, 1], [[1, 0], [0, 1]])
   \<and> matmul (mH diagonal_linalg [[1, 0], [0, 1]]) [[1, 0], [0, 1]] = eye 2
   \<and> sqrtmh diagonal_linalg [[1 / 1000000000, 0], [0, 1]] = [[0, 0], [0, 1]]
   \<and> matvec (matmul (sqrtmh diagonal_linalg [[1 / 1000000000, 0], [0, 1]])
                (sqrtmh diagonal_linalg [[1 / 1000000000, 0], [0, 1]])) [0, 1]
       = matvec [[1 / 1000000000, 0], [0, 1]] [0, 1]
   \<and> matvec (matmul (sqrtmh diagonal_linalg [[1 / 1000000000, 0], [0, 1]])
                (sqrtmh diagonal_linalg [[1 / 1000000000, 0], [0, 1]])) [1, 0]
       = [0, 0]
   \<and> sqrtmh phase_linalg [[4]] = [[2]]"
proof -
  let ?A = "[[1 / 1000000000, 0], [0, 1::real]]"
  let ?Q = "[[1, 0], [0, 1::real]]"
  let ?L = "[1 / 1000000000, 1::real]"
  have e: "eigh diagonal_linalg ?A = (?L, ?Q)" by (simp add: diagonal_linalg_def)
  have Q: "is_mat 2 2 ?Q" by (simp add: is_mat_def)
  have Qh: "is_mat 2 2 (mH diagonal_linalg ?Q)"
    by (simp add: is_mat_def diagonal_linalg_def array_defs upt_conv_Cons)
  have orth: "matmul (mH diagonal_linalg ?Q) ?Q = eye 2"
    by (simp add: diagonal_linalg_def array_defs upt_conv_Cons)
  have dec: "?A = matmul (matmul ?Q (diag (map of_real ?L))) (mH diagonal_linalg ?Q)"
    by (simp add: diagonal_linalg_def array_defs upt_conv_Cons)
  have eps: "0 \<le> finfo_eps diagonal_linalg" "real 2 * finfo_eps diagonal_linalg \<le> 1"
    by (simp_all add: diagonal_linalg_def)
  have L': "[0, 1] = map (\<lambda>l. if l \<le> list_max ?L * real 2 * finfo_eps diagonal_linalg then 0 else l) ?L"
    by (simp add: diagonal_linalg_def)
  have c: "col ?Q 1 = [0, 1]" "col ?Q 0 = [1, 0]" by (simp_all add: col_def)
  have k: "list_max ?L * real 2 * finfo_eps diagonal_linalg < ?L ! 1"
    "?L ! 0 \<le> list_max ?L * real 2 * finfo_eps diagonal_linalg"
    by (simp_all add: diagonal_linalg_def)
  have len: "length ?L = 2" by simp
  have pos: "(0::nat) < 2" by simp
  note r = sqrtmh_eigen [OF e len pos Q Qh orth dec eps refl L']
  have s: "sqrtmh diagonal_linalg ?A = [[0, 0], [0, 1]]"
    using r by (simp add: diagonal_linalg_def array_defs upt_conv_Cons)
  have j: "(1::nat) < 2" "(0::nat) < 2" by simp_all
  have a1: "matvec (matmul (sqrtmh diagonal_linalg ?A) (sqrtmh diagonal_linalg ?A)) (col ?Q 1)
      = matvec ?A (col ?Q 1)"
    using r j(1) k(1) by blast
  have a0: "matvec (matmul (sqrtmh diagonal_linalg ?A) (sqrtmh diagonal_linalg ?A)) (col ?Q 0)
      = replicate 2 0"
    using r j(2) k(2) by blast
  have ec: "eigh phase_linalg [[4]] = ([4], [[\<i>]])" by (simp add: phase_linalg_def)
  have Qc: "is_mat 1 1 [[\<i>]]" by (simp add: is_mat_def)
  have Qhc: "is_mat 1 1 (mH phase_linalg [[\<i>]])"
    by (simp add: is_mat_def phase_linalg_def array_defs)
  have orthc: "matmul (mH phase_linalg [[\<i>]]) [[\<i>]] = eye 1"
    by (simp add: phase_linalg_def array_defs)
  have decc: "[[4]] = matmul (matmul [[\<i>]] (diag (map of_real [4]))) (mH phase_linalg [[\<i>]])"
    by (simp add: phase_linalg_def array_defs complex_eq_iff)
  have epsc: "0 \<le> finfo_eps phase_linalg" "real 1 * finfo_eps phase_linalg \<le> 1"
    by (simp_all add: phase_linalg_def)
  have L'c: "[4] = map (\<lambda>l. if l \<le> list_max [4] * real 1 * finfo_eps phase_linalg then 0 else l) [4]"
    by (simp add: phase_linalg_def)
  have lenc: "length [4::real] = 1" by simp
  have posc: "(0::nat) < 1" by simp
  note rc = sqrtmh_eigen [OF ec lenc posc Qc Qhc orthc decc epsc refl L'c]
  have sc: "sqrtmh phase_linalg [[4]] = [[2]]"
    using rc by (simp add: phase_linalg_def array_defs complex_eq_iff)
  show ?thesis
    using e orth s sc a1 [unfolded c] a0 [unfolded c] by (simp add: numeral_2_eq_2)
qed

end
